theory Spec2Isabelle
  imports Complex_Main "HOL-Library.Word"
begin

section \<open>The Lua values and the Lua state\<close>

text \<open>
  \<open>luawrapper.hpp\<close> is a thin layer over the C API of Lua. The API itself (\<open>lua.h\<close>,
  \<open>lauxlib.h\<close>) is not part of the repository; the functions the wrapper calls are embedded
  here as the Lua reference manual and the macros of \<open>lua.h\<close> / \<open>lauxlib.h\<close> define them.
  Of the metatables, the events the wrapper can reach are modelled: \<open>__index\<close> and
  \<open>__newindex\<close> (through \<open>lua_gettable\<close> and \<open>lua_settable\<close>) and \<open>__call\<close> (through
  \<open>lua_pcall\<close>); the table of globals is a plain map without a metatable. The garbage
  collector, memory exhaustion and the bound on the stack size are not modelled.

  The value kinds are those of the wrapper's \<open>enum luaType\<close>.
\<close>

datatype luaType =
  TNIL | TBOOL | TLUSERDATA | TNUMBER | TSTRING | TTABLE | TFUNCTION | TUSERDATA | TTHREAD

text \<open>
  A Lua value. Numbers are \<open>lua_Number\<close> (a C double): every finite double is a real, so a
  statement about all reals covers all finite doubles; NaN and the infinities are outside the
  model. C pointers (\<open>void*\<close>, \<open>FILE*\<close>) are addresses, \<open>NULL\<close> being 0. Tables, functions,
  full userdata and threads are references to objects of the engine.
\<close>

datatype lua_value =
    Nil
  | Boolean bool
  | LightUserdata nat
  | Number real
  | String string
  | Table nat
  | Function nat
  | Userdata nat
  | Thread nat

fun ttype :: "lua_value \<Rightarrow> luaType" where
  "ttype Nil = TNIL"
| "ttype (Boolean b) = TBOOL"
| "ttype (LightUserdata p) = TLUSERDATA"
| "ttype (Number x) = TNUMBER"
| "ttype (String s) = TSTRING"
| "ttype (Table a) = TTABLE"
| "ttype (Function f) = TFUNCTION"
| "ttype (Userdata a) = TUSERDATA"
| "ttype (Thread t) = TTHREAD"

text \<open>The names of the kinds in the messages of the engine.\<close>

fun luaT_typename :: "luaType \<Rightarrow> string" where
  "luaT_typename TNIL = ''nil''"
| "luaT_typename TBOOL = ''boolean''"
| "luaT_typename TLUSERDATA = ''userdata''"
| "luaT_typename TNUMBER = ''number''"
| "luaT_typename TSTRING = ''string''"
| "luaT_typename TTABLE = ''table''"
| "luaT_typename TFUNCTION = ''function''"
| "luaT_typename TUSERDATA = ''userdata''"
| "luaT_typename TTHREAD = ''thread''"

text \<open>
  The state of the engine (\<open>lua_State\<close>): the operand stack with its top at the head of the
  list, the global namespace (a missing name reads as \<open>Nil\<close>), the integer keys of the
  registry table (where \<open>luaL_ref\<close> keeps its references, a missing key reads as \<open>Nil\<close>),
  the tables of the heap with the address of the next table to allocate, and for each value
  the address of its metatable, if it has one.
\<close>

type_synonym lua_table = "lua_value \<Rightarrow> lua_value"

record lua_State =
  stack :: "lua_value list"
  globals :: "string \<Rightarrow> lua_value"
  registry :: "int \<Rightarrow> lua_value"
  heap :: "nat \<Rightarrow> lua_table"
  next_table :: nat
  metatables :: "lua_value \<Rightarrow> nat option"

text \<open>
  What the engine does beyond the state: the conversions of \<open>luaconf.h\<close> between numbers and
  strings (\<open>lua_str2number\<close>, \<open>lua_number2str\<close>), the conversion of a number with a fractional
  part to an integer (\<open>lua_number2integer\<close>; truncation, rounding or failure depending on
  version and platform), the length operator on the registry table (\<open>lua_objlen\<close>, some
  border of the table), the loader of script files and the execution of a function value on
  its arguments, which ends with an error value or with a list of results and may change
  everything but the caller's stack.
\<close>

record engine =
  str2number :: "string \<Rightarrow> real option"
  number2str :: "real \<Rightarrow> string"
  number2integer :: "real \<Rightarrow> int"
  objlen :: "(int \<Rightarrow> lua_value) \<Rightarrow> nat"
  loadfile :: "string \<Rightarrow> string + nat"
  call :: "lua_value \<Rightarrow> lua_value list \<Rightarrow> lua_State \<Rightarrow> (lua_value + lua_value list) \<times> lua_State"

text \<open>
  The wrapper object: the engine state it owns, the status tag \<open>m_status\<close> (\<open>None\<close> is
  \<open>NULL\<close>) and what it has written with \<open>printf\<close>, each call recorded as its format string
  and its \<open>%s\<close> arguments (\<open>None\<close> is a \<open>NULL\<close> argument), latest call first.
\<close>

record LuaWrapper =
  m_luastate :: lua_State
  m_status :: "string option"
  console :: "(string \<times> string option list) list"

text \<open>
  An error: raised by the wrapper (\<open>luaL_error\<close>) or by the engine itself, with its message
  (without position prefix), or the error value thrown by a function the engine ran.
\<close>

datatype error = LuaError string | Thrown lua_value

section \<open>The C API of Lua\<close>

text \<open>
  A stack index: positive from the bottom (1 is the first value pushed), negative from the
  top (-1 is the top). The result is the position in the list, \<open>None\<close> for an index that
  names no value of the stack. The API leaves the use of a negative index below the bottom
  undefined; the model reads it as no value.
\<close>

definition index2adr :: "lua_State \<Rightarrow> int \<Rightarrow> nat option" where
  "index2adr L idx =
     (let n = int (length (stack L)) in
      if 0 < idx \<and> idx \<le> n then Some (nat (n - idx))
      else if idx < 0 \<and> - idx \<le> n then Some (nat (- idx - 1))
      else None)"

definition index2value :: "lua_State \<Rightarrow> int \<Rightarrow> lua_value option" where
  "index2value L idx = map_option (\<lambda>p. stack L ! p) (index2adr L idx)"

text \<open>\<open>lua_type\<close>: the kind of the value at the index, \<open>None\<close> being \<open>LUA_TNONE\<close>.\<close>

definition lua_type :: "lua_State \<Rightarrow> int \<Rightarrow> luaType option" where
  "lua_type L idx = map_option ttype (index2value L idx)"

definition lua_gettop :: "lua_State \<Rightarrow> nat" where
  "lua_gettop L = length (stack L)"

text \<open>
  \<open>lua_settop\<close>: the index becomes the new top; values above it are dropped, missing ones
  are filled with nil; index 0 empties the stack. (A negative index below the bottom is
  undefined in the API; the model empties the stack.)
\<close>

definition lua_settop :: "lua_State \<Rightarrow> int \<Rightarrow> lua_State" where
  "lua_settop L idx =
     (let n = length (stack L);
          newtop = (if 0 \<le> idx then nat idx else nat (int n + idx + 1)) in
      L\<lparr>stack := (if newtop \<le> n then drop (n - newtop) (stack L)
                   else replicate (newtop - n) Nil @ stack L)\<rparr>)"

text \<open>\<open>#define lua_pop(L,n) lua_settop(L, -(n)-1)\<close>\<close>

definition lua_pop :: "lua_State \<Rightarrow> int \<Rightarrow> lua_State" where
  "lua_pop L n = lua_settop L (- n - 1)"

definition push :: "lua_value \<Rightarrow> lua_State \<Rightarrow> lua_State" where
  "push v L = L\<lparr>stack := v # stack L\<rparr>"

definition lua_pushnumber :: "lua_State \<Rightarrow> real \<Rightarrow> lua_State" where
  "lua_pushnumber L n = push (Number n) L"

text \<open>\<open>lua_pushinteger\<close>: the integer as a number of the same value.\<close>

definition lua_pushinteger :: "lua_State \<Rightarrow> int \<Rightarrow> lua_State" where
  "lua_pushinteger L n = push (Number (of_int n)) L"

text \<open>\<open>lua_pushstring\<close>: a copy of the C string; a \<open>NULL\<close> pointer pushes nil.\<close>

definition lua_pushstring :: "lua_State \<Rightarrow> string option \<Rightarrow> lua_State" where
  "lua_pushstring L s = (case s of None \<Rightarrow> push Nil L | Some t \<Rightarrow> push (String t) L)"

definition lua_pushnil :: "lua_State \<Rightarrow> lua_State" where
  "lua_pushnil L = push Nil L"

definition lua_pushlightuserdata :: "lua_State \<Rightarrow> nat \<Rightarrow> lua_State" where
  "lua_pushlightuserdata L p = push (LightUserdata p) L"

text \<open>The tests on kinds. \<open>lua_isnumber\<close> also accepts a string convertible to a number,
  \<open>lua_isstring\<close> also accepts a number, \<open>lua_isuserdata\<close> accepts full and light userdata.\<close>

definition lua_isnil :: "lua_State \<Rightarrow> int \<Rightarrow> bool" where
  "lua_isnil L idx = (lua_type L idx = Some TNIL)"

definition lua_istable :: "lua_State \<Rightarrow> int \<Rightarrow> bool" where
  "lua_istable L idx = (lua_type L idx = Some TTABLE)"

definition lua_isfunction :: "lua_State \<Rightarrow> int \<Rightarrow> bool" where
  "lua_isfunction L idx = (lua_type L idx = Some TFUNCTION)"

definition tonumber :: "engine \<Rightarrow> lua_value \<Rightarrow> real option" where
  "tonumber E v = (case v of Number x \<Rightarrow> Some x | String s \<Rightarrow> str2number E s | _ \<Rightarrow> None)"

definition lua_isnumber :: "engine \<Rightarrow> lua_State \<Rightarrow> int \<Rightarrow> bool" where
  "lua_isnumber E L idx =
     (case index2value L idx of None \<Rightarrow> False | Some v \<Rightarrow> tonumber E v \<noteq> None)"

definition lua_isstring :: "lua_State \<Rightarrow> int \<Rightarrow> bool" where
  "lua_isstring L idx = (lua_type L idx = Some TSTRING \<or> lua_type L idx = Some TNUMBER)"

definition lua_isuserdata :: "lua_State \<Rightarrow> int \<Rightarrow> bool" where
  "lua_isuserdata L idx = (lua_type L idx = Some TUSERDATA \<or> lua_type L idx = Some TLUSERDATA)"

text \<open>\<open>lua_tonumber\<close>: the number, or 0 when the value is not convertible\<close>

definition lua_tonumber :: "engine \<Rightarrow> lua_State \<Rightarrow> int \<Rightarrow> real" where
  "lua_tonumber E L idx =
     (case index2value L idx of None \<Rightarrow> 0
      | Some v \<Rightarrow> (case tonumber E v of None \<Rightarrow> 0 | Some x \<Rightarrow> x))"

text \<open>
  \<open>lua_tointeger\<close>: a number of integral value that fits a 32-bit integer, and so every
  \<open>lua_Integer\<close>, converts to that integer in every version of Lua; what happens to a
  fractional part or to a value out of that range is the engine's \<open>lua_number2integer\<close>
  (in C the conversion of a double that does not fit is undefined; Lua 5.3 gives 0).
\<close>

definition number_to_integer :: "engine \<Rightarrow> real \<Rightarrow> int" where
  "number_to_integer E x =
     (if x = of_int \<lfloor>x\<rfloor> \<and> - (2 ^ 31) \<le> \<lfloor>x\<rfloor> \<and> \<lfloor>x\<rfloor> < 2 ^ 31 then \<lfloor>x\<rfloor>
      else number2integer E x)"

definition value_tointeger :: "engine \<Rightarrow> lua_value \<Rightarrow> int" where
  "value_tointeger E v = (case tonumber E v of None \<Rightarrow> 0 | Some x \<Rightarrow> number_to_integer E x)"

definition lua_tointeger :: "engine \<Rightarrow> lua_State \<Rightarrow> int \<Rightarrow> int" where
  "lua_tointeger E L idx =
     (case index2value L idx of None \<Rightarrow> 0 | Some v \<Rightarrow> value_tointeger E v)"

text \<open>
  \<open>lua_tostring\<close> (\<open>lua_tolstring\<close>): the string; a number is first converted to a string
  in place, in the stack; any other value gives \<open>NULL\<close>.
\<close>

definition lua_tostring :: "engine \<Rightarrow> lua_State \<Rightarrow> int \<Rightarrow> string option \<times> lua_State" where
  "lua_tostring E L idx =
     (case index2adr L idx of
        None \<Rightarrow> (None, L)
      | Some p \<Rightarrow>
          (case stack L ! p of
             String s \<Rightarrow> (Some s, L)
           | Number x \<Rightarrow> (Some (number2str E x), L\<lparr>stack := (stack L)[p := String (number2str E x)]\<rparr>)
           | _ \<Rightarrow> (None, L)))"

text \<open>\<open>lua_touserdata\<close>: the block address of a full userdata, the pointer of a light
  one, \<open>NULL\<close> otherwise.\<close>

definition lua_touserdata :: "lua_State \<Rightarrow> int \<Rightarrow> nat" where
  "lua_touserdata L idx =
     (case index2value L idx of
        Some (Userdata a) \<Rightarrow> a
      | Some (LightUserdata p) \<Rightarrow> p
      | _ \<Rightarrow> 0)"

text \<open>
  Metamethods. \<open>luaT_gettmbyobj\<close> reads the handler of an event in the metatable of a
  value, with a raw access; nil when there is no metatable or no handler.
\<close>

definition ttisfunction :: "lua_value \<Rightarrow> bool" where
  "ttisfunction v = (ttype v = TFUNCTION)"

definition ttistable :: "lua_value \<Rightarrow> bool" where
  "ttistable v = (ttype v = TTABLE)"

definition luaT_gettmbyobj :: "lua_State \<Rightarrow> lua_value \<Rightarrow> string \<Rightarrow> lua_value" where
  "luaT_gettmbyobj L v event =
     (case metatables L v of None \<Rightarrow> Nil | Some m \<Rightarrow> heap L m (String event))"

text \<open>The raw read of a table; a value that is no table has no fields.\<close>

definition rawget :: "lua_State \<Rightarrow> lua_value \<Rightarrow> lua_value \<Rightarrow> lua_value" where
  "rawget L t key = (case t of Table a \<Rightarrow> heap L a key | _ \<Rightarrow> Nil)"

text \<open>A call of the engine keeps its first result, or nil when there is none.\<close>

definition first_result :: "lua_value list \<Rightarrow> lua_value" where
  "first_result rs = (case rs of [] \<Rightarrow> Nil | r # _ \<Rightarrow> r)"

definition MAXTAGLOOP :: nat where
  "MAXTAGLOOP = 100"

text \<open>
  The event \<open>index\<close> (\<open>luaV_gettable\<close>, the \<open>gettable_event\<close> of the manual): a table
  answers with its own entry when it has one or when it has no \<open>__index\<close> handler; a value
  that is no table and has no handler cannot be indexed; a handler that is a function is
  called on the value and the key, and its first result is the answer; any other handler is
  indexed in turn, at most \<open>MAXTAGLOOP\<close> times in all (100 in Lua 5.1 and 5.2, more later).
  The first argument counts the steps left. A function the engine calls sees the whole
  stack and may change everything but the stack.
\<close>

fun luaV_gettable ::
  "nat \<Rightarrow> engine \<Rightarrow> lua_State \<Rightarrow> lua_value \<Rightarrow> lua_value \<Rightarrow> (error \<times> lua_State) + (lua_value \<times> lua_State)"
where
  "luaV_gettable 0 E L t key = Inl (LuaError ''loop in gettable'', L)"
| "luaV_gettable (Suc n) E L t key =
     (if ttistable t
         \<and> (luaT_gettmbyobj L t ''__index'' = Nil \<or> rawget L t key \<noteq> Nil)
      then Inr (rawget L t key, L)
      else if luaT_gettmbyobj L t ''__index'' = Nil
      then Inl (LuaError (''attempt to index a '' @ luaT_typename (ttype t) @ '' value''), L)
      else if ttisfunction (luaT_gettmbyobj L t ''__index'')
      then (case call E (luaT_gettmbyobj L t ''__index'') [t, key] L of
              (Inl e, L') \<Rightarrow> Inl (Thrown e, L'\<lparr>stack := stack L\<rparr>)
            | (Inr rs, L') \<Rightarrow> Inr (first_result rs, L'\<lparr>stack := stack L\<rparr>))
      else luaV_gettable n E L (luaT_gettmbyobj L t ''__index'') key)"

text \<open>
  The event \<open>newindex\<close> (\<open>luaV_settable\<close>, the \<open>settable_event\<close> of the manual): a table
  stores the value itself when it has an entry for the key or no \<open>__newindex\<close> handler (a
  raw store, which refuses the key nil); otherwise as for \<open>index\<close>, the handler being
  called on the value, the key and the new value.
\<close>

fun luaV_settable ::
  "nat \<Rightarrow> engine \<Rightarrow> lua_State \<Rightarrow> lua_value \<Rightarrow> lua_value \<Rightarrow> lua_value \<Rightarrow> (error \<times> lua_State) + lua_State"
where
  "luaV_settable 0 E L t key val = Inl (LuaError ''loop in settable'', L)"
| "luaV_settable (Suc n) E L t key val =
     (if ttistable t
         \<and> (luaT_gettmbyobj L t ''__newindex'' = Nil \<or> rawget L t key \<noteq> Nil)
      then (case t of
              Table a \<Rightarrow>
                if key = Nil then Inl (LuaError ''table index is nil'', L)
                else Inr (L\<lparr>heap := (heap L)(a := (heap L a)(key := val))\<rparr>)
            | _ \<Rightarrow> Inr L)
      else if luaT_gettmbyobj L t ''__newindex'' = Nil
      then Inl (LuaError (''attempt to index a '' @ luaT_typename (ttype t) @ '' value''), L)
      else if ttisfunction (luaT_gettmbyobj L t ''__newindex'')
      then (case call E (luaT_gettmbyobj L t ''__newindex'') [t, key, val] L of
              (Inl e, L') \<Rightarrow> Inl (Thrown e, L'\<lparr>stack := stack L\<rparr>)
            | (Inr rs, L') \<Rightarrow> Inr (L'\<lparr>stack := stack L\<rparr>))
      else luaV_settable n E L (luaT_gettmbyobj L t ''__newindex'') key val)"

text \<open>
  \<open>lua_newtable\<close>: a new empty table, without metatable, is allocated and pushed.
  \<open>lua_gettable\<close> replaces the key at the top by the answer of the event \<open>index\<close> for the
  value at the index; \<open>lua_settable\<close> runs the event \<open>newindex\<close> for the value at the index
  with the value at the top and the key below it, and pops both. Where the API leaves the
  behaviour undefined (no value at the index, too few values on the stack), the model
  raises.
\<close>

definition lua_newtable :: "lua_State \<Rightarrow> lua_State" where
  "lua_newtable L =
     (let a = next_table L in
      push (Table a) (L\<lparr>heap := (heap L)(a := (\<lambda>_. Nil)), next_table := a + 1,
                        metatables := (metatables L)(Table a := None)\<rparr>))"

definition lua_gettable :: "engine \<Rightarrow> lua_State \<Rightarrow> int \<Rightarrow> (error \<times> lua_State) + lua_State" where
  "lua_gettable E L idx =
     (case index2value L idx of
        Some t \<Rightarrow>
          (case stack L of
             key # rest \<Rightarrow>
               (case luaV_gettable MAXTAGLOOP E L t key of
                  Inl (e, L') \<Rightarrow> Inl (e, L')
                | Inr (v, L') \<Rightarrow> Inr (L'\<lparr>stack := v # rest\<rparr>))
           | [] \<Rightarrow> Inl (LuaError ''attempt to index a no value'', L))
      | None \<Rightarrow> Inl (LuaError ''attempt to index a no value'', L))"

definition lua_settable :: "engine \<Rightarrow> lua_State \<Rightarrow> int \<Rightarrow> (error \<times> lua_State) + lua_State" where
  "lua_settable E L idx =
     (case index2value L idx of
        Some t \<Rightarrow>
          (case stack L of
             val # key # rest \<Rightarrow>
               (case luaV_settable MAXTAGLOOP E L t key val of
                  Inl (e, L') \<Rightarrow> Inl (e, L')
                | Inr L' \<Rightarrow> Inr (L'\<lparr>stack := rest\<rparr>))
           | _ \<Rightarrow> Inl (LuaError ''attempt to index a no value'', L))
      | None \<Rightarrow> Inl (LuaError ''attempt to index a no value'', L))"

text \<open>\<open>lua_getglobal\<close> pushes the value of a global name; \<open>lua_setglobal\<close> pops the top
  into it (popping from an empty stack is undefined; the model does nothing).\<close>

definition lua_getglobal :: "lua_State \<Rightarrow> string \<Rightarrow> lua_State" where
  "lua_getglobal L name = push (globals L name) L"

definition lua_setglobal :: "lua_State \<Rightarrow> string \<Rightarrow> lua_State" where
  "lua_setglobal L name =
     (case stack L of
        v # rest \<Rightarrow> L\<lparr>stack := rest, globals := (globals L)(name := v)\<rparr>
      | [] \<Rightarrow> L)"

definition LUA_MULTRET :: int where
  "LUA_MULTRET = - 1"

definition LUA_ERRRUN :: int where
  "LUA_ERRRUN = 2"

definition LUA_ERRFILE :: int where
  "LUA_ERRFILE = 6"

text \<open>
  The results of a call are adjusted to \<open>nresults\<close> values (truncated, or padded with nil),
  unless \<open>nresults\<close> is \<open>LUA_MULTRET\<close>: then all results are kept. (The API defines no
  other negative count; the engine treats them as \<open>LUA_MULTRET\<close>.)
\<close>

definition adjust_results :: "int \<Rightarrow> lua_value list \<Rightarrow> lua_value list" where
  "adjust_results nresults rs =
     (if nresults < 0 then rs
      else take (nat nresults) rs @ replicate (nat nresults - length rs) Nil)"

text \<open>
  What a call of the value \<open>f\<close> on \<open>args\<close> runs (the event \<open>call\<close>): \<open>f\<close> itself when it is
  a function; otherwise its \<open>__call\<close> handler, which must be a function, on \<open>f\<close> and the
  arguments; otherwise nothing.
\<close>

definition callee :: "lua_State \<Rightarrow> lua_value \<Rightarrow> lua_value list \<Rightarrow> (lua_value \<times> lua_value list) option" where
  "callee L f args =
     (if ttisfunction f then Some (f, args)
      else if ttisfunction (luaT_gettmbyobj L f ''__call'')
      then Some (luaT_gettmbyobj L f ''__call'', f # args)
      else None)"

text \<open>
  \<open>lua_pcall(L, nargs, nresults, 0)\<close>: the value to call lies below its \<open>nargs\<close> arguments,
  the last argument at the top. Value and arguments are removed; the results are pushed in
  order (the last result at the top) and the status is 0, or a single error value is pushed
  and the status is not 0. A value that is no function and has no \<open>__call\<close> handler
  cannot be called. A stack with fewer than \<open>nargs + 1\<close> values, or a negative \<open>nargs\<close>, is
  undefined in the API; the model takes a missing value for nil and a negative \<open>nargs\<close>
  for 0.
\<close>

definition lua_pcall :: "engine \<Rightarrow> lua_State \<Rightarrow> int \<Rightarrow> int \<Rightarrow> int \<times> lua_State" where
  "lua_pcall E L nargs nresults =
     (let args = rev (take (nat nargs) (stack L));
          f = (case drop (nat nargs) (stack L) of [] \<Rightarrow> Nil | g # _ \<Rightarrow> g);
          rest = drop (nat nargs + 1) (stack L) in
      case callee L f args of
        Some (g, as) \<Rightarrow>
          (case call E g as (L\<lparr>stack := rest\<rparr>) of
             (Inl e, L') \<Rightarrow> (LUA_ERRRUN, L'\<lparr>stack := e # rest\<rparr>)
           | (Inr rs, L') \<Rightarrow> (0, L'\<lparr>stack := rev (adjust_results nresults rs) @ rest\<rparr>))
      | None \<Rightarrow>
          (LUA_ERRRUN,
           L\<lparr>stack := String (''attempt to call a '' @ luaT_typename (ttype f) @ '' value'') # rest\<rparr>))"

text \<open>
  \<open>luaL_loadfile\<close> pushes the compiled chunk as a function and returns 0, or pushes an
  error message and returns a status that is not 0 (the model returns \<open>LUA_ERRFILE\<close> for
  every failure to load).
  \<open>#define luaL_dofile(L, fn) (luaL_loadfile(L, fn) || lua_pcall(L, 0, LUA_MULTRET, 0))\<close>
\<close>

definition luaL_loadfile :: "engine \<Rightarrow> lua_State \<Rightarrow> string \<Rightarrow> int \<times> lua_State" where
  "luaL_loadfile E L fn =
     (case loadfile E fn of
        Inl msg \<Rightarrow> (LUA_ERRFILE, push (String msg) L)
      | Inr f \<Rightarrow> (0, push (Function f) L))"

definition luaL_dofile :: "engine \<Rightarrow> lua_State \<Rightarrow> string \<Rightarrow> int \<times> lua_State" where
  "luaL_dofile E L fn =
     (case luaL_loadfile E L fn of
        (st, L1) \<Rightarrow>
          if st \<noteq> 0 then (1, L1)
          else (case lua_pcall E L1 0 LUA_MULTRET of
                  (st2, L2) \<Rightarrow> (if st2 \<noteq> 0 then 1 else 0, L2)))"

text \<open>
  References in the registry (\<open>lauxlib.c\<close> of Lua 5.1 to 5.3): key 0 of the table heads
  the list of free references, each free slot holding the next one. \<open>luaL_ref\<close> pops the
  top value; nil gets
  the fixed reference \<open>LUA_REFNIL\<close>; any other value is stored under the first free
  reference, or under the key after the table's length when none is free. \<open>luaL_unref\<close>
  puts a reference that is not negative at the head of the free list. \<open>lua_rawgeti\<close> pushes
  the table's value for an integer key. On an empty stack \<open>luaL_ref\<close> is undefined; the model
  returns \<open>LUA_NOREF\<close>.
\<close>

definition LUA_REFNIL :: int where
  "LUA_REFNIL = - 1"

definition LUA_NOREF :: int where
  "LUA_NOREF = - 2"

definition FREELIST_REF :: int where
  "FREELIST_REF = 0"

definition luaL_ref :: "engine \<Rightarrow> lua_State \<Rightarrow> int \<times> lua_State" where
  "luaL_ref E L =
     (case stack L of
        [] \<Rightarrow> (LUA_NOREF, L)
      | v # rest \<Rightarrow>
          if v = Nil then (LUA_REFNIL, L\<lparr>stack := rest\<rparr>)
          else
            (let t = registry L;
                 ref = value_tointeger E (t FREELIST_REF) in
             if ref \<noteq> 0
             then (ref, L\<lparr>stack := rest, registry := t(FREELIST_REF := t ref, ref := v)\<rparr>)
             else (int (objlen E t) + 1,
                   L\<lparr>stack := rest, registry := t(int (objlen E t) + 1 := v)\<rparr>)))"

definition luaL_unref :: "lua_State \<Rightarrow> int \<Rightarrow> lua_State" where
  "luaL_unref L ref =
     (if 0 \<le> ref
      then L\<lparr>registry := (registry L)(ref := registry L FREELIST_REF,
                                        FREELIST_REF := Number (of_int ref))\<rparr>
      else L)"

definition lua_rawgeti_registry :: "lua_State \<Rightarrow> int \<Rightarrow> lua_State" where
  "lua_rawgeti_registry L n = push (registry L n) L"

section \<open>The wrapper: stack manipulation\<close>

definition pushNumber :: "real \<Rightarrow> LuaWrapper \<Rightarrow> LuaWrapper" where
  "pushNumber n W = W\<lparr>m_luastate := lua_pushnumber (m_luastate W) n\<rparr>"

text \<open>The argument is a C \<open>int\<close>, widened to \<open>lua_Integer\<close>.\<close>

definition pushInt :: "32 word \<Rightarrow> LuaWrapper \<Rightarrow> LuaWrapper" where
  "pushInt n W = W\<lparr>m_luastate := lua_pushinteger (m_luastate W) (sint n)\<rparr>"

definition pushString :: "string option \<Rightarrow> LuaWrapper \<Rightarrow> LuaWrapper" where
  "pushString s W = W\<lparr>m_luastate := lua_pushstring (m_luastate W) s\<rparr>"

definition pushNil :: "LuaWrapper \<Rightarrow> LuaWrapper" where
  "pushNil W = W\<lparr>m_luastate := lua_pushnil (m_luastate W)\<rparr>"

definition pushLUserdata :: "nat \<Rightarrow> LuaWrapper \<Rightarrow> LuaWrapper" where
  "pushLUserdata p W = W\<lparr>m_luastate := lua_pushlightuserdata (m_luastate W) p\<rparr>"

text \<open>\<open>void pop(){ lua_pop( m_luastate, -1 );}\<close>\<close>

definition pop :: "LuaWrapper \<Rightarrow> LuaWrapper" where
  "pop W = W\<lparr>m_luastate := lua_pop (m_luastate W) (- 1)\<rparr>"

text \<open>
  The typed pops. \<open>luaL_error\<close> does not return: the model stops at the guard that
  raises. The wrapper paired with an error is the wrapper at that guard; what happens to
  the stack afterwards (\<open>luaL_error\<close> pushes its message, and the long jump lands in a
  protected call of some caller or in the panic function) is outside the model.
\<close>

definition popInt :: "engine \<Rightarrow> LuaWrapper \<Rightarrow> (error \<times> LuaWrapper) + (32 word \<times> LuaWrapper)" where
  "popInt E W =
     (if \<not> lua_isnumber E (m_luastate W) (- 1)
      then Inl (LuaError ''ERROR: C-Lua stack value type mismatch (should be a number)!'', W)
      else (let n = word_of_int (lua_tointeger E (m_luastate W) (- 1)) in
            Inr (n, W\<lparr>m_luastate := lua_pop (m_luastate W) 1\<rparr>)))"

definition popNumber :: "engine \<Rightarrow> LuaWrapper \<Rightarrow> (error \<times> LuaWrapper) + (real \<times> LuaWrapper)" where
  "popNumber E W =
     (if \<not> lua_isnumber E (m_luastate W) (- 1)
      then Inl (LuaError ''ERROR: C-Lua stack value type mismatch (should be a number)!'', W)
      else (let num = lua_tonumber E (m_luastate W) (- 1) in
            Inr (num, W\<lparr>m_luastate := lua_pop (m_luastate W) 1\<rparr>)))"

definition popString :: "engine \<Rightarrow> LuaWrapper \<Rightarrow> (error \<times> LuaWrapper) + (string option \<times> LuaWrapper)" where
  "popString E W =
     (if \<not> lua_isstring (m_luastate W) (- 1)
      then Inl (LuaError ''ERROR: C-Lua stack value type mismatch (should be a string)!'', W)
      else (case lua_tostring E (m_luastate W) (- 1) of
              (string, L1) \<Rightarrow> Inr (string, W\<lparr>m_luastate := lua_pop L1 1\<rparr>)))"

definition popUserdata :: "LuaWrapper \<Rightarrow> (error \<times> LuaWrapper) + (nat \<times> LuaWrapper)" where
  "popUserdata W =
     (if \<not> lua_isuserdata (m_luastate W) (- 1)
      then Inl (LuaError ''ERROR: C-Lua stack value type mismatch (should be userdata)!'', W)
      else (let vp = lua_touserdata (m_luastate W) (- 1) in
            Inr (vp, W\<lparr>m_luastate := lua_pop (m_luastate W) 1\<rparr>)))"

definition moveToTop :: "int \<Rightarrow> LuaWrapper \<Rightarrow> LuaWrapper" where
  "moveToTop index W = W\<lparr>m_luastate := lua_settop (m_luastate W) index\<rparr>"

definition isNil :: "int \<Rightarrow> LuaWrapper \<Rightarrow> int" where
  "isNil index W = (if lua_isnil (m_luastate W) index then 1 else 0)"

definition createTable :: "LuaWrapper \<Rightarrow> LuaWrapper" where
  "createTable W = W\<lparr>m_luastate := lua_newtable (m_luastate W)\<rparr>"

text \<open>The two overloads of \<open>pushTableValue\<close>, by integer index and by string key.\<close>

definition pushTableValue_int :: "engine \<Rightarrow> 32 word \<Rightarrow> LuaWrapper \<Rightarrow> (error \<times> LuaWrapper) + LuaWrapper" where
  "pushTableValue_int E index W =
     (if \<not> lua_istable (m_luastate W) (- 1)
      then Inl (LuaError ''ERROR: Trying to get table value without table at top of stack!'', W)
      else (case lua_gettable E (lua_pushinteger (m_luastate W) (sint index)) (- 2) of
              Inl (e, L1) \<Rightarrow> Inl (e, W\<lparr>m_luastate := L1\<rparr>)
            | Inr L2 \<Rightarrow> Inr (W\<lparr>m_luastate := L2\<rparr>)))"

definition pushTableValue :: "engine \<Rightarrow> string option \<Rightarrow> LuaWrapper \<Rightarrow> (error \<times> LuaWrapper) + LuaWrapper" where
  "pushTableValue E key W =
     (if \<not> lua_istable (m_luastate W) (- 1)
      then Inl (LuaError ''ERROR: Trying to get table value without table at top of stack!'', W)
      else (case lua_gettable E (lua_pushstring (m_luastate W) key) (- 2) of
              Inl (e, L1) \<Rightarrow> Inl (e, W\<lparr>m_luastate := L1\<rparr>)
            | Inr L2 \<Rightarrow> Inr (W\<lparr>m_luastate := L2\<rparr>)))"

definition setTable :: "engine \<Rightarrow> LuaWrapper \<Rightarrow> (error \<times> LuaWrapper) + LuaWrapper" where
  "setTable E W =
     (if \<not> lua_istable (m_luastate W) (- 3)
      then Inl (LuaError ''ERROR: Trying to set table without pushing key and value to stack!'', W)
      else (case lua_settable E (m_luastate W) (- 3) of
              Inl (e, L1) \<Rightarrow> Inl (e, W\<lparr>m_luastate := L1\<rparr>)
            | Inr L1 \<Rightarrow> Inr (W\<lparr>m_luastate := L1\<rparr>)))"

section \<open>The wrapper: globals, calls, references, files\<close>

definition getGlobal :: "string \<Rightarrow> LuaWrapper \<Rightarrow> LuaWrapper" where
  "getGlobal name W = W\<lparr>m_luastate := lua_getglobal (m_luastate W) name\<rparr>"

definition setGlobal :: "string \<Rightarrow> LuaWrapper \<Rightarrow> LuaWrapper" where
  "setGlobal name W = W\<lparr>m_luastate := lua_setglobal (m_luastate W) name\<rparr>"

definition doFile :: "engine \<Rightarrow> string \<Rightarrow> LuaWrapper \<Rightarrow> int \<times> LuaWrapper" where
  "doFile E filename W =
     (case luaL_dofile E (m_luastate W) filename of
        (ret, L1) \<Rightarrow>
          if ret = 1
          then (case lua_tostring E L1 (- 1) of
                  (msg, L2) \<Rightarrow>
                    (ret, W\<lparr>m_luastate := L2,
                            console := (''Error running LuaWrapper::dofile doing file: %s\<newline>error: %s\<newline>'',
                                        [Some filename, msg]) # console W\<rparr>))
          else (ret, W\<lparr>m_luastate := L1\<rparr>))"

text \<open>
  The two \<open>lua_tostring\<close> calls are arguments of one \<open>printf\<close>; C does not fix their order.
  The model evaluates them left to right; the other order gives the same result (shown
  below).
\<close>

definition callFunction :: "engine \<Rightarrow> int \<Rightarrow> int \<Rightarrow> LuaWrapper \<Rightarrow> int \<times> LuaWrapper" where
  "callFunction E nargs nresults W =
     (case lua_pcall E (m_luastate W) nargs nresults of
        (st, L1) \<Rightarrow>
          if st \<noteq> 0
          then (case lua_tostring E L1 (- (nargs + 1)) of
                  (fname, L2) \<Rightarrow>
                    (case lua_tostring E L2 (- 1) of
                       (msg, L3) \<Rightarrow>
                         (0, W\<lparr>m_luastate := L3,
                               console := (''Error running function %s: %s'', [fname, msg])
                                          # console W\<rparr>)))
          else (1, W\<lparr>m_luastate := L1\<rparr>))"


definition doesFuncExist :: "string \<Rightarrow> LuaWrapper \<Rightarrow> int \<times> LuaWrapper" where
  "doesFuncExist luafuncname W =
     (let W1 = getGlobal luafuncname W;
          funcexists = lua_isfunction (m_luastate W1) (- 1);
          W2 = pop W1 in
      if funcexists then (1, W2) else (0, W2))"

definition pop2Ref :: "engine \<Rightarrow> LuaWrapper \<Rightarrow> int \<times> LuaWrapper" where
  "pop2Ref E W = (case luaL_ref E (m_luastate W) of (r, L1) \<Rightarrow> (r, W\<lparr>m_luastate := L1\<rparr>))"

definition pushRef :: "int \<Rightarrow> LuaWrapper \<Rightarrow> LuaWrapper" where
  "pushRef refval W =
     W\<lparr>m_luastate := luaL_unref (lua_rawgeti_registry (m_luastate W) refval) refval\<rparr>"

text \<open>
  \<open>LuaWrapperOpenFile\<close>: after the chain on the mode string, which sets \<open>m_status\<close> or
  returns \<open>NULL\<close>, the open itself (\<open>io_open\<close> here) is the same for every accepted mode.
\<close>

definition io_open :: "engine \<Rightarrow> string option \<Rightarrow> string \<Rightarrow> LuaWrapper \<Rightarrow> (error \<times> LuaWrapper) + (nat \<times> LuaWrapper)" where
  "io_open E fname s W =
     (let W1 = getGlobal ''io.open'' W;
          W2 = pushString fname W1;
          W3 = pushString (Some s) W2;
          W4 = snd (callFunction E 2 1 W3) in
      popUserdata W4)"

definition LuaWrapperOpenFile :: "engine \<Rightarrow> string option \<Rightarrow> string \<Rightarrow> LuaWrapper \<Rightarrow> (error \<times> LuaWrapper) + (nat \<times> LuaWrapper)" where
  "LuaWrapperOpenFile E fname s W =
     (if s = ''w'' \<or> s = ''wb'' \<or> s = ''w+''
      then io_open E fname s (W\<lparr>m_status := Some ''_OUTPUT''\<rparr>)
      else if s = ''a'' \<or> s = ''ab'' \<or> s = ''a+''
      then io_open E fname s (W\<lparr>m_status := Some ''_OUTPUT''\<rparr>)
      else if s = ''r'' \<or> s = ''rb'' \<or> s = ''r+''
      then io_open E fname s (W\<lparr>m_status := Some ''_INPUT''\<rparr>)
      else Inr (0, W))"

definition LuaWrapperCloseFile :: "nat \<Rightarrow> engine \<Rightarrow> LuaWrapper \<Rightarrow> LuaWrapper" where
  "LuaWrapperCloseFile fp E W = snd (callFunction E 0 0 (getGlobal ''io.close'' W))"

section \<open>Notions for the statements, concrete states and a concrete engine\<close>

text \<open>The wrapper with the operand stack of its engine replaced.\<close>

definition with_stack :: "LuaWrapper \<Rightarrow> lua_value list \<Rightarrow> LuaWrapper" where
  "with_stack W vs = W\<lparr>m_luastate := (m_luastate W)\<lparr>stack := vs\<rparr>\<rparr>"

text \<open>The operand stack of the wrapper's engine.\<close>

definition stack_of :: "LuaWrapper \<Rightarrow> lua_value list" where
  "stack_of W = stack (m_luastate W)"

text \<open>
  Any one of the wrapper's five pushes, with its argument, and the Lua value it stands for.
\<close>

datatype pushed = PNumber real | PInt "32 word" | PString "string option" | PNil | PLUserdata nat

fun push_any :: "pushed \<Rightarrow> LuaWrapper \<Rightarrow> LuaWrapper" where
  "push_any (PNumber x) W = pushNumber x W"
| "push_any (PInt n) W = pushInt n W"
| "push_any (PString s) W = pushString s W"
| "push_any PNil W = pushNil W"
| "push_any (PLUserdata p) W = pushLUserdata p W"

fun pushed_value :: "pushed \<Rightarrow> lua_value" where
  "pushed_value (PNumber x) = Number x"
| "pushed_value (PInt n) = Number (of_int (sint n))"
| "pushed_value (PString None) = Nil"
| "pushed_value (PString (Some s)) = String s"
| "pushed_value PNil = Nil"
| "pushed_value (PLUserdata p) = LightUserdata p"

text \<open>The error an operation raised, if it raised.\<close>

definition raised :: "(error \<times> LuaWrapper) + 'a \<Rightarrow> error option" where
  "raised r = (case r of Inl (e, W) \<Rightarrow> Some e | Inr x \<Rightarrow> None)"

text \<open>
  What \<open>lua_tostring\<close> returns for a value, and what it leaves in the slot of the value:
  a number is replaced by its string form.
\<close>

definition tostring_text :: "engine \<Rightarrow> lua_value \<Rightarrow> string option" where
  "tostring_text E v =
     (case v of String s \<Rightarrow> Some s | Number x \<Rightarrow> Some (number2str E x) | _ \<Rightarrow> None)"

definition tostring_conv :: "engine \<Rightarrow> lua_value \<Rightarrow> lua_value" where
  "tostring_conv E v = (case v of Number x \<Rightarrow> String (number2str E x) | _ \<Rightarrow> v)"


definition failure_rest :: "engine \<Rightarrow> int \<Rightarrow> lua_value list \<Rightarrow> lua_value list" where
  "failure_rest E nargs rest =
     (if 1 \<le> nargs \<and> nat nargs \<le> length rest
      then rest[nat nargs - 1 := tostring_conv E (rest ! (nat nargs - 1))]
      else rest)"

text \<open>The wrapper after an operation, whether it returned or raised.\<close>

definition final :: "(error \<times> LuaWrapper) + ('a \<times> LuaWrapper) \<Rightarrow> LuaWrapper" where
  "final r = (case r of Inl (e, W) \<Rightarrow> W | Inr (x, W) \<Rightarrow> W)"

text \<open>The depth of the operand stack of the wrapper's engine.\<close>

definition depth :: "LuaWrapper \<Rightarrow> nat" where
  "depth W = lua_gettop (m_luastate W)"

text \<open>An engine state with an empty stack, no globals, an empty registry and no tables.\<close>

definition L0 :: lua_State where
  "L0 = \<lparr>stack = [], globals = (\<lambda>_. Nil), registry = (\<lambda>_. Nil),
         heap = (\<lambda>_ _. Nil), next_table = 0, metatables = (\<lambda>_. None)\<rparr>"

definition W0 :: LuaWrapper where
  "W0 = \<lparr>m_luastate = L0, m_status = None, console = []\<rparr>"

text \<open>
  An engine state as \<open>luaL_openlibs\<close> leaves the \<open>io\<close> library: the global \<open>io\<close> is a
  table whose fields \<open>open\<close> and \<open>close\<close> are functions (3 and 4 here). No global has the
  name \<open>io.open\<close> or \<open>io.close\<close>.
\<close>

definition L_io :: lua_State where
  "L_io = \<lparr>stack = [],
           globals = (\<lambda>_. Nil)(''io'' := Table 0),
           registry = (\<lambda>_. Nil),
           heap = (\<lambda>_ _. Nil)(0 := (\<lambda>_. Nil)(String ''open'' := Function 3,
                                                String ''close'' := Function 4)),
           next_table = 1,
           metatables = (\<lambda>_. None)\<rparr>"

definition W_io :: LuaWrapper where
  "W_io = \<lparr>m_luastate = L_io, m_status = None, console = []\<rparr>"

text \<open>
  An engine state with an empty table 0 at the top of the stack, to which a script has
  given the metatable 1, whose \<open>__index\<close> handler is function 2.
\<close>

definition L_mt :: lua_State where
  "L_mt = \<lparr>stack = [Table 0],
           globals = (\<lambda>_. Nil),
           registry = (\<lambda>_. Nil),
           heap = (\<lambda>_ _. Nil)(1 := (\<lambda>_. Nil)(String ''__index'' := Function 2)),
           next_table = 2,
           metatables = (\<lambda>_. None)(Table 0 := Some 1)\<rparr>"

definition W_mt :: LuaWrapper where
  "W_mt = \<lparr>m_luastate = L_mt, m_status = None, console = []\<rparr>"

text \<open>
  An engine state whose registry holds a reference 3 and two freed ones: the free list
  is 2, then 1.
\<close>

definition L_refs :: lua_State where
  "L_refs = \<lparr>stack = [],
             globals = (\<lambda>_. Nil),
             registry = (\<lambda>_. Nil)(0 := Number 2, 2 := Number 1, 3 := String ''kept''),
             heap = (\<lambda>_ _. Nil),
             next_table = 0,
             metatables = (\<lambda>_. None)\<rparr>"

definition W_refs :: LuaWrapper where
  "W_refs = \<lparr>m_luastate = L_refs, m_status = None, console = []\<rparr>"

text \<open>
  A concrete engine, to run the model on concrete inputs. Its conversions are those of a
  stock Lua 5.1 on numbers of integral value and on unsigned decimal literals (a number prints
  as the decimal digits of its integral part, a string of decimal digits reads as that
  number, a fractional part is truncated towards zero); its length operator returns the
  least border up to 8. It knows two script files: \<open>echo.lua\<close> compiles to function 0, which
  returns its arguments, \<open>raise.lua\<close> compiles to function 1, which raises a table as
  its error value (\<open>error({})\<close>), and \<open>fail.lua\<close> compiles to function 2, which like any
  other function raises a message; any other file cannot be opened.
\<close>

definition dec_digit :: "nat \<Rightarrow> char" where
  "dec_digit d = ''0123456789'' ! d"

fun dec_digits :: "nat \<Rightarrow> string" where
  "dec_digits n = (if n < 10 then [dec_digit n] else dec_digits (n div 10) @ [dec_digit (n mod 10)])"

declare dec_digits.simps [simp del]

definition show_number :: "real \<Rightarrow> string" where
  "show_number x =
     (if x < 0 then CHR ''-'' # dec_digits (nat (- \<lceil>x\<rceil>)) else dec_digits (nat \<lfloor>x\<rfloor>))"

definition digit_val :: "char \<Rightarrow> nat option" where
  "digit_val c = map_of (zip ''0123456789'' [0, 1, 2, 3, 4, 5, 6, 7, 8, 9]) c"

fun read_digits :: "string \<Rightarrow> nat \<Rightarrow> nat option" where
  "read_digits [] acc = Some acc"
| "read_digits (c # cs) acc =
     (case digit_val c of None \<Rightarrow> None | Some d \<Rightarrow> read_digits cs (10 * acc + d))"

definition read_number :: "string \<Rightarrow> real option" where
  "read_number s = (if s = [] then None else map_option of_nat (read_digits s 0))"

definition least_border :: "(int \<Rightarrow> lua_value) \<Rightarrow> nat" where
  "least_border t = length (takeWhile (\<lambda>i. t i \<noteq> Nil) [1, 2, 3, 4, 5, 6, 7, 8])"

definition E0 :: engine where
  "E0 = \<lparr>str2number = read_number,
         number2str = show_number,
         number2integer = (\<lambda>x. if 0 \<le> x then \<lfloor>x\<rfloor> else \<lceil>x\<rceil>),
         objlen = least_border,
         loadfile = (\<lambda>fn. if fn = ''echo.lua'' then Inr 0
                          else if fn = ''raise.lua'' then Inr 1
                          else if fn = ''fail.lua'' then Inr 2
                          else Inl (''cannot open '' @ fn @ '': No such file or directory'')),
         call = (\<lambda>f args L. if f = Function 0 then (Inr args, L)
                             else if f = Function 1 then (Inl (Table 0), L)
                             else (Inl (String ''error''), L))\<rparr>"

section \<open>Properties\<close>

subsection \<open>The stack primitives\<close>

lemma index2adr_top [simp]: "stack L = v # vs \<Longrightarrow> index2adr L (- 1) = Some 0"
  by (simp add: index2adr_def)

lemma index2value_top [simp]: "stack L = v # vs \<Longrightarrow> index2value L (- 1) = Some v"
  by (simp add: index2value_def index2adr_def)

lemma index2value_second [simp]: "stack L = v # w # vs \<Longrightarrow> index2value L (- 2) = Some w"
  by (simp add: index2value_def index2adr_def)

lemma index2value_third [simp]:
  "stack L = v # w # u # vs \<Longrightarrow> index2value L (- 3) = Some u"
  by (simp add: index2value_def index2adr_def)

lemma lua_pop_top [simp]: "stack L = v # vs \<Longrightarrow> lua_pop L 1 = L\<lparr>stack := vs\<rparr>"
  by (simp add: lua_pop_def lua_settop_def Let_def)

lemma with_stack_stack [simp]: "m_luastate (with_stack W vs) = (m_luastate W)\<lparr>stack := vs\<rparr>"
  by (simp add: with_stack_def)

lemma with_stack_update [simp]:
  "with_stack W vs\<lparr>m_luastate := (m_luastate W)\<lparr>stack := ws\<rparr>\<rparr> = with_stack W ws"
  by (simp add: with_stack_def)

lemma with_stack_same [simp]: "with_stack W (stack_of W) = W"
  by (simp add: with_stack_def stack_of_def)

lemma depth_with_stack [simp]: "depth (with_stack W vs) = length vs"
  by (simp add: depth_def lua_gettop_def)

lemma stack_of_W0 [simp]: "stack_of W0 = []"
  by (simp add: stack_of_def W0_def L0_def)

lemma with_stack_W0 [simp]: "with_stack W0 [] = W0"
  by (simp add: with_stack_def W0_def L0_def)

text \<open>Every push of the wrapper puts one value on the top and changes nothing else.\<close>

lemma push_as_with_stack:
  "pushNumber x W = with_stack W (Number x # stack_of W)"
  "pushInt n W = with_stack W (Number (of_int (sint n)) # stack_of W)"
  "pushString (Some s) W = with_stack W (String s # stack_of W)"
  "pushString None W = with_stack W (Nil # stack_of W)"
  "pushNil W = with_stack W (Nil # stack_of W)"
  "pushLUserdata p W = with_stack W (LightUserdata p # stack_of W)"
  by (simp_all add: pushNumber_def pushInt_def pushString_def pushNil_def pushLUserdata_def
      lua_pushnumber_def lua_pushinteger_def lua_pushstring_def lua_pushnil_def
      lua_pushlightuserdata_def push_def with_stack_def stack_of_def)

subsection \<open>\<open>pop\<close>\<close>

lemma pop_empties: "pop W = with_stack W []"
  by (simp add: pop_def lua_pop_def lua_settop_def with_stack_def)

text \<open>
  C1. \<open>pop()\<close> is to remove exactly the top value. It calls \<open>lua_pop\<close> with the count -1,
  which expands to \<open>lua_settop(L, 0)\<close>: on a stack of three values none is left, where the
  two values below the top should have stayed.
\<close>

theorem pop_removes_all_at_depth_3:
  "stack_of (pop (pushInt 3 (pushInt 2 (pushInt 1 W0)))) = []
   \<and> depth (pushInt 3 (pushInt 2 (pushInt 1 W0))) = 3
   \<and> depth (pop (pushInt 3 (pushInt 2 (pushInt 1 W0)))) = 0"
  by (simp add: pop_def lua_pop_def lua_settop_def pushInt_def lua_pushinteger_def push_def
      depth_def lua_gettop_def stack_of_def W0_def L0_def)

subsection \<open>The typed pops\<close>

lemma popString_top:
  "popString E (with_stack W (v # rest)) =
     (case v of
        String s \<Rightarrow> Inr (Some s, with_stack W rest)
      | Number x \<Rightarrow> Inr (Some (number2str E x), with_stack W rest)
      | _ \<Rightarrow> Inl (LuaError ''ERROR: C-Lua stack value type mismatch (should be a string)!'',
                  with_stack W (v # rest)))"
  by (cases v) (simp_all add: popString_def lua_isstring_def lua_type_def lua_tostring_def)

lemma popUserdata_top:
  "popUserdata (with_stack W (v # rest)) =
     (case v of
        Userdata a \<Rightarrow> Inr (a, with_stack W rest)
      | LightUserdata p \<Rightarrow> Inr (p, with_stack W rest)
      | _ \<Rightarrow> Inl (LuaError ''ERROR: C-Lua stack value type mismatch (should be userdata)!'',
                  with_stack W (v # rest)))"
  by (cases v) (simp_all add: popUserdata_def lua_isuserdata_def lua_type_def lua_touserdata_def)

lemma popNumber_top:
  "popNumber E (with_stack W (v # rest)) =
     (case tonumber E v of
        Some x \<Rightarrow> Inr (x, with_stack W rest)
      | None \<Rightarrow> Inl (LuaError ''ERROR: C-Lua stack value type mismatch (should be a number)!'',
                  with_stack W (v # rest)))"
  by (simp add: popNumber_def lua_isnumber_def lua_tonumber_def split: option.splits)

lemma popInt_top:
  "popInt E (with_stack W (v # rest)) =
     (case tonumber E v of
        Some x \<Rightarrow> Inr (word_of_int (number_to_integer E x), with_stack W rest)
      | None \<Rightarrow> Inl (LuaError ''ERROR: C-Lua stack value type mismatch (should be a number)!'',
                  with_stack W (v # rest)))"
  by (simp add: popInt_def lua_isnumber_def lua_tointeger_def value_tointeger_def
      split: option.splits)

text \<open>
  C2, as the code has it. With a value \<open>v\<close> at the top, a typed pop raises exactly when
  the coercing test of the Lua API rejects \<open>v\<close>: \<open>popInt\<close> and \<open>popNumber\<close> accept a number
  and also a string that converts to a number, \<open>popString\<close> accepts a string and also a
  number (returned as its string form), \<open>popUserdata\<close> accepts full and light userdata. The
  error raised is a Lua error whose message names the expected kind only. Otherwise the pop
  returns the converted value and removes exactly the top value.
\<close>

theorem typed_pop_coercing:
  "(case v of
      Number x \<Rightarrow>
        popInt E (with_stack W (v # rest))
          = Inr (word_of_int (number_to_integer E x), with_stack W rest)
    | String s \<Rightarrow>
        (case str2number E s of
           Some x \<Rightarrow>
             popInt E (with_stack W (v # rest))
               = Inr (word_of_int (number_to_integer E x), with_stack W rest)
         | None \<Rightarrow>
             raised (popInt E (with_stack W (v # rest)))
               = Some (LuaError ''ERROR: C-Lua stack value type mismatch (should be a number)!''))
    | _ \<Rightarrow>
        raised (popInt E (with_stack W (v # rest)))
          = Some (LuaError ''ERROR: C-Lua stack value type mismatch (should be a number)!''))
   \<and> (case v of
      Number x \<Rightarrow> popNumber E (with_stack W (v # rest)) = Inr (x, with_stack W rest)
    | String s \<Rightarrow>
        (case str2number E s of
           Some x \<Rightarrow> popNumber E (with_stack W (v # rest)) = Inr (x, with_stack W rest)
         | None \<Rightarrow>
             raised (popNumber E (with_stack W (v # rest)))
               = Some (LuaError ''ERROR: C-Lua stack value type mismatch (should be a number)!''))
    | _ \<Rightarrow>
        raised (popNumber E (with_stack W (v # rest)))
          = Some (LuaError ''ERROR: C-Lua stack value type mismatch (should be a number)!''))
   \<and> (case v of
      String s \<Rightarrow> popString E (with_stack W (v # rest)) = Inr (Some s, with_stack W rest)
    | Number x \<Rightarrow>
        popString E (with_stack W (v # rest)) = Inr (Some (number2str E x), with_stack W rest)
    | _ \<Rightarrow>
        raised (popString E (with_stack W (v # rest)))
          = Some (LuaError ''ERROR: C-Lua stack value type mismatch (should be a string)!''))
   \<and> (case v of
      Userdata a \<Rightarrow> popUserdata (with_stack W (v # rest)) = Inr (a, with_stack W rest)
    | LightUserdata p \<Rightarrow> popUserdata (with_stack W (v # rest)) = Inr (p, with_stack W rest)
    | _ \<Rightarrow>
        raised (popUserdata (with_stack W (v # rest)))
          = Some (LuaError ''ERROR: C-Lua stack value type mismatch (should be userdata)!''))"
  by (cases v)
     (simp_all add: popInt_top popNumber_top popString_top popUserdata_top tonumber_def raised_def
      split: option.splits)

lemma show_number_5: "show_number 5 = ''5''"
  by (simp add: show_number_def dec_digits.simps dec_digit_def)

text \<open>
  C2, as stated, fails: with the number 5 at the top, whose kind is not string, \<open>popString\<close>
  raises no error; it returns the string \<open>5\<close> and pops the number.
\<close>

theorem popString_accepts_number:
  "popString E0 (pushNumber 5 W0) = Inr (Some ''5'', W0)"
  by (simp add: push_as_with_stack popString_top E0_def show_number_5)

text \<open>
  The conversion to an integer is fixed by the model only within the 32-bit range; an
  integer pushed with \<open>pushInt\<close> lies in it.
\<close>

lemma number_to_integer_of_int [simp]:
  "- (2 ^ 31) \<le> n \<Longrightarrow> n < 2 ^ 31 \<Longrightarrow> number_to_integer E (of_int n) = n"
  by (simp add: number_to_integer_def)

lemma number_to_integer_signed [simp]:
  "number_to_integer E (signed (n :: 32 word)) = sint n"
proof -
  have "- (2 ^ 31) \<le> sint n" "sint n < 2 ^ 31"
    using sint_ge [of n] sint_lt [of n] by simp_all
  then show ?thesis
    using number_to_integer_of_int [of "sint n" E] by simp
qed

text \<open>
  C7. Round trip: for each kind that has a push and a pop (number, integer, string, light
  userdata), pushing a value and popping it with the pop of the same kind returns that value
  and leaves the wrapper, and so the stack and its depth, exactly as before the push.
\<close>

theorem push_pop_roundtrip:
  "popNumber E (pushNumber x W) = Inr (x, W)
   \<and> popInt E (pushInt n W) = Inr (n, W)
   \<and> popString E (pushString (Some s) W) = Inr (Some s, W)
   \<and> popUserdata (pushLUserdata p W) = Inr (p, W)"
  by (simp add: push_as_with_stack popNumber_top popInt_top popString_top popUserdata_top
      tonumber_def)

subsection \<open>\<open>doesFuncExist\<close>\<close>

text \<open>The answer is right, but the stack is emptied by \<open>pop()\<close> instead of restored.\<close>

lemma doesFuncExist_result:
  "doesFuncExist name W =
     (if ttype (globals (m_luastate W) name) = TFUNCTION then 1 else 0, with_stack W [])"
  by (simp add: doesFuncExist_def Let_def getGlobal_def lua_getglobal_def push_def pop_def
      lua_pop_def lua_settop_def lua_isfunction_def lua_type_def with_stack_def)

text \<open>
  C3. \<open>doesFuncExist\<close> is to return false for a name that is no global function and to leave
  the stack depth as it was. With one value on the stack and no global \<open>nonexistent\<close>, it
  returns false, but the depth goes from 1 to 0: the lookup result is removed with
  \<open>pop()\<close>, which empties the stack.
\<close>

theorem doesFuncExist_empties_stack:
  "doesFuncExist ''nonexistent'' (pushInt 7 W0) = (0, W0)
   \<and> depth (pushInt 7 W0) = 1
   \<and> depth (snd (doesFuncExist ''nonexistent'' (pushInt 7 W0))) = 0"
  by (simp add: doesFuncExist_result push_as_with_stack)
     (simp add: with_stack_def W0_def L0_def depth_def lua_gettop_def)


subsection \<open>Tables\<close>

lemma push_any_eq: "push_any x W = with_stack W (pushed_value x # stack_of W)"
  by (cases x rule: pushed_value.cases) (simp_all add: push_as_with_stack)

lemma stack_of_with_stack [simp]: "stack_of (with_stack W vs) = vs"
  by (simp add: stack_of_def)

lemma with_stack_twice [simp]: "with_stack (with_stack W vs) ws = with_stack W ws"
  by (simp add: with_stack_def)

lemma MAXTAGLOOP_Suc: "MAXTAGLOOP = Suc 99"
  by (simp add: MAXTAGLOOP_def)

lemma luaT_gettmbyobj_stack [simp]:
  "luaT_gettmbyobj (L\<lparr>stack := vs\<rparr>) v event = luaT_gettmbyobj L v event"
  by (simp add: luaT_gettmbyobj_def split: option.splits)

text \<open>A table without a handler for the event answers and stores by itself.\<close>

lemma luaV_gettable_step:
  "luaT_gettmbyobj L (Table a) ''__index'' = Nil \<Longrightarrow>
   luaV_gettable (Suc n) E L (Table a) key = Inr (heap L a key, L)"
  by (simp add: ttistable_def rawget_def)

lemma luaV_gettable_plain:
  "luaT_gettmbyobj L (Table a) ''__index'' = Nil \<Longrightarrow>
   luaV_gettable MAXTAGLOOP E L (Table a) key = Inr (heap L a key, L)"
  unfolding MAXTAGLOOP_Suc by (rule luaV_gettable_step)

lemma luaV_settable_step:
  "luaT_gettmbyobj L (Table a) ''__newindex'' = Nil \<Longrightarrow> key \<noteq> Nil \<Longrightarrow>
   luaV_settable (Suc n) E L (Table a) key val =
     Inr (L\<lparr>heap := (heap L)(a := (heap L a)(key := val))\<rparr>)"
  by (simp add: ttistable_def rawget_def)

lemma luaV_settable_plain:
  "luaT_gettmbyobj L (Table a) ''__newindex'' = Nil \<Longrightarrow> key \<noteq> Nil \<Longrightarrow>
   luaV_settable MAXTAGLOOP E L (Table a) key val =
     Inr (L\<lparr>heap := (heap L)(a := (heap L a)(key := val))\<rparr>)"
  unfolding MAXTAGLOOP_Suc by (rule luaV_settable_step)

lemma lua_gettable_plain:
  assumes "stack L = key # Table a # rest"
    and "luaT_gettmbyobj L (Table a) ''__index'' = Nil"
  shows "lua_gettable E L (- 2) = Inr (L\<lparr>stack := heap L a key # Table a # rest\<rparr>)"
  using assms by (simp add: lua_gettable_def luaV_gettable_plain)

lemma lua_settable_plain:
  assumes "stack L = val # key # Table a # rest"
    and "luaT_gettmbyobj L (Table a) ''__newindex'' = Nil" and "key \<noteq> Nil"
  shows "lua_settable E L (- 3) =
     Inr (L\<lparr>stack := Table a # rest, heap := (heap L)(a := (heap L a)(key := val))\<rparr>)"
  using assms by (simp add: lua_settable_def luaV_settable_plain)

lemma pushTableValue_top:
  assumes "luaT_gettmbyobj (m_luastate W) (Table a) ''__index'' = Nil"
  shows "pushTableValue E (Some key) (with_stack W (Table a # rest)) =
     Inr (with_stack W (heap (m_luastate W) a (String key) # Table a # rest))"
  using assms
    lua_gettable_plain [of "(m_luastate W)\<lparr>stack := String key # Table a # rest\<rparr>"
      "String key" a rest E]
  by (simp add: pushTableValue_def lua_istable_def lua_type_def lua_pushstring_def push_def
      with_stack_def)

lemma pushTableValue_int_top:
  assumes "luaT_gettmbyobj (m_luastate W) (Table a) ''__index'' = Nil"
  shows "pushTableValue_int E i (with_stack W (Table a # rest)) =
     Inr (with_stack W (heap (m_luastate W) a (Number (of_int (sint i))) # Table a # rest))"
  using assms
    lua_gettable_plain [of "(m_luastate W)\<lparr>stack := Number (of_int (sint i)) # Table a # rest\<rparr>"
      "Number (of_int (sint i))" a rest E]
  by (simp add: pushTableValue_int_def lua_istable_def lua_type_def lua_pushinteger_def push_def
      with_stack_def)

lemma setTable_top:
  assumes "luaT_gettmbyobj (m_luastate W) (Table a) ''__newindex'' = Nil" and "k \<noteq> Nil"
  shows "setTable E (with_stack W (v # k # Table a # rest)) =
     Inr (W\<lparr>m_luastate := (m_luastate W)\<lparr>stack := Table a # rest,
            heap := (heap (m_luastate W))(a := (heap (m_luastate W) a)(k := v))\<rparr>\<rparr>)"
  using assms
    lua_settable_plain [of "(m_luastate W)\<lparr>stack := v # k # Table a # rest\<rparr>" v k a rest E]
  by (simp add: setTable_def lua_istable_def lua_type_def with_stack_def)

lemma createTable_eq:
  "createTable W =
     W\<lparr>m_luastate := (m_luastate W)\<lparr>stack := Table (next_table (m_luastate W)) # stack_of W,
          heap := (heap (m_luastate W))(next_table (m_luastate W) := (\<lambda>_. Nil)),
          next_table := next_table (m_luastate W) + 1,
          metatables := (metatables (m_luastate W))(Table (next_table (m_luastate W)) := None)\<rparr>\<rparr>"
  by (simp add: createTable_def lua_newtable_def push_def stack_of_def Let_def)

lemma createTable_facts:
  "stack_of (createTable W) = Table (next_table (m_luastate W)) # stack_of W"
  "heap (m_luastate (createTable W)) (next_table (m_luastate W)) = (\<lambda>_. Nil)"
  "luaT_gettmbyobj (m_luastate (createTable W)) (Table (next_table (m_luastate W))) event = Nil"
  by (simp_all add: createTable_eq stack_of_def luaT_gettmbyobj_def)

lemma table_roundtrip_general:
  assumes k: "k \<noteq> Nil"
  shows "setTable E (with_stack (createTable W)
            (v # k # stack_of (createTable W))) =
          Inr (W\<lparr>m_luastate := (m_luastate (createTable W))\<lparr>
                 heap := (heap (m_luastate (createTable W)))
                           (next_table (m_luastate W) := (\<lambda>_. Nil)(k := v))\<rparr>\<rparr>)"
  using setTable_top [of "createTable W" "next_table (m_luastate W)" k E v "stack_of W"] k
  by (simp add: createTable_facts) (simp add: createTable_eq stack_of_def)


lemma table_roundtrip_key:
  assumes k: "k \<noteq> Nil"
    and get: "\<And>W1 rest. luaT_gettmbyobj (m_luastate W1) (Table (next_table (m_luastate W))) ''__index'' = Nil
        \<Longrightarrow> lookup (with_stack W1 (Table (next_table (m_luastate W)) # rest))
          = Inr (with_stack W1 (heap (m_luastate W1) (next_table (m_luastate W)) k
                                 # Table (next_table (m_luastate W)) # rest))"
  shows "\<exists>W1 W2. setTable E (with_stack (createTable W) (v # k # stack_of (createTable W))) = Inr W1
     \<and> lookup W1 = Inr W2
     \<and> stack_of W2 = v # Table (next_table (m_luastate W)) # stack_of W"
proof -
  let ?a = "next_table (m_luastate W)"
  let ?W1 = "W\<lparr>m_luastate := (m_luastate (createTable W))\<lparr>
                 heap := (heap (m_luastate (createTable W)))(?a := (\<lambda>_. Nil)(k := v))\<rparr>\<rparr>"
  have s: "setTable E (with_stack (createTable W) (v # k # stack_of (createTable W))) = Inr ?W1"
    by (rule table_roundtrip_general [OF k])
  have w: "?W1 = with_stack ?W1 (Table ?a # stack_of W)"
    by (simp add: with_stack_def createTable_eq stack_of_def)
  have t: "luaT_gettmbyobj (m_luastate ?W1) (Table ?a) ''__index'' = Nil"
    by (simp add: createTable_eq luaT_gettmbyobj_def)
  have h: "heap (m_luastate ?W1) ?a k = v"
    by simp
  have l: "lookup ?W1 = Inr (with_stack ?W1 (v # Table ?a # stack_of W))"
    using get [OF t, of "stack_of W"] w h by simp
  have d: "stack_of (with_stack ?W1 (v # Table ?a # stack_of W)) = v # Table ?a # stack_of W"
    by (rule stack_of_with_stack)
  show ?thesis using s l d by blast
qed

lemma table_roundtrip_str:
  "\<exists>W1 W2. setTable E (push_any x (pushString (Some key) (createTable W))) = Inr W1
     \<and> pushTableValue E (Some key) W1 = Inr W2
     \<and> stack_of W2 = pushed_value x # Table (next_table (m_luastate W)) # stack_of W"
  using table_roundtrip_key [of "String key" W "pushTableValue E (Some key)" E "pushed_value x"]
    pushTableValue_top [of _ "next_table (m_luastate W)" E key]
  by (simp add: push_any_eq push_as_with_stack)

lemma table_roundtrip_int:
  "\<exists>W1 W2. setTable E (push_any x (pushInt i (createTable W))) = Inr W1
     \<and> pushTableValue_int E i W1 = Inr W2
     \<and> stack_of W2 = pushed_value x # Table (next_table (m_luastate W)) # stack_of W"
  using table_roundtrip_key [of "Number (of_int (sint i))" W "pushTableValue_int E i" E "pushed_value x"]
    pushTableValue_int_top [of _ "next_table (m_luastate W)" E i]
  by (simp add: push_any_eq push_as_with_stack)

lemma table_contract:
  "\<not> lua_istable (m_luastate W) (- 1) \<Longrightarrow>
     pushTableValue E k W =
       Inl (LuaError ''ERROR: Trying to get table value without table at top of stack!'', W)
     \<and> pushTableValue_int E i W =
       Inl (LuaError ''ERROR: Trying to get table value without table at top of stack!'', W)"
  "\<not> lua_istable (m_luastate W) (- 3) \<Longrightarrow>
     setTable E W =
       Inl (LuaError ''ERROR: Trying to set table without pushing key and value to stack!'', W)"
  by (simp_all add: pushTableValue_def pushTableValue_int_def setTable_def)

text \<open>
  C8. After \<open>createTable(); push(key); push(value); setTable(); pushTableValue(key)\<close>, for
  a string key and for an integer key and for any of the wrapper's pushes as the push of the
  value, no step fails, the value is at the top and the new table lies directly below it,
  on top of the stack as it was at the start. A table operation whose table is missing
  (not at the top for the two forms of \<open>pushTableValue\<close>, not third from the top for
  \<open>setTable\<close>) raises its contract error.
\<close>

theorem table_roundtrip_and_contract:
  "(\<exists>W1 W2. setTable E (push_any x (pushString (Some key) (createTable W))) = Inr W1
      \<and> pushTableValue E (Some key) W1 = Inr W2
      \<and> stack_of W2 = pushed_value x # Table (next_table (m_luastate W)) # stack_of W)
   \<and> (\<exists>W1 W2. setTable E (push_any x (pushInt i (createTable W))) = Inr W1
      \<and> pushTableValue_int E i W1 = Inr W2
      \<and> stack_of W2 = pushed_value x # Table (next_table (m_luastate W)) # stack_of W)
   \<and> (\<not> lua_istable (m_luastate W) (- 1) \<longrightarrow>
        pushTableValue E k W =
          Inl (LuaError ''ERROR: Trying to get table value without table at top of stack!'', W)
        \<and> pushTableValue_int E i W =
          Inl (LuaError ''ERROR: Trying to get table value without table at top of stack!'', W))
   \<and> (\<not> lua_istable (m_luastate W) (- 3) \<longrightarrow>
        setTable E W =
          Inl (LuaError ''ERROR: Trying to set table without pushing key and value to stack!'', W))"
  using table_roundtrip_str [of E x key W] table_roundtrip_int [of E x i W]
    table_contract(1) [of W E k i] table_contract(2) [of W E] by blast

lemma istable_W0: "\<not> lua_istable (m_luastate W0) idx"
  by (auto simp add: lua_istable_def lua_type_def index2value_def index2adr_def W0_def L0_def)

text \<open>The round trip with the number 5 under the keys \<open>k\<close> and 1, and the three table
  operations raising on the empty stack.\<close>

theorem table_roundtrip_and_contract_witness:
  "(\<exists>W1 W2. setTable E0 (push_any (PNumber 5) (pushString (Some ''k'') (createTable W0))) = Inr W1
      \<and> pushTableValue E0 (Some ''k'') W1 = Inr W2
      \<and> stack_of W2 = [Number 5, Table 0])
   \<and> (\<exists>W1 W2. setTable E0 (push_any (PNumber 5) (pushInt 1 (createTable W0))) = Inr W1
      \<and> pushTableValue_int E0 1 W1 = Inr W2
      \<and> stack_of W2 = [Number 5, Table 0])
   \<and> \<not> lua_istable (m_luastate W0) (- 1)
   \<and> pushTableValue E0 (Some ''k'') W0 =
        Inl (LuaError ''ERROR: Trying to get table value without table at top of stack!'', W0)
   \<and> pushTableValue_int E0 1 W0 =
        Inl (LuaError ''ERROR: Trying to get table value without table at top of stack!'', W0)
   \<and> \<not> lua_istable (m_luastate W0) (- 3)
   \<and> setTable E0 W0 =
        Inl (LuaError ''ERROR: Trying to set table without pushing key and value to stack!'', W0)"
  using table_roundtrip_and_contract [of E0 "PNumber 5" "''k''" W0 1 "Some ''k''"]
  by (simp add: istable_W0) (simp add: W0_def L0_def)


text \<open>
  C10, as the code has it. With a table at the top that has no \<open>__index\<close> handler,
  \<open>pushTableValue\<close> does not fail: it leaves the table's own entry for the key at the top
  and the table directly below it, so the depth grows by one. For a key without entry
  that is nil, and \<open>isNil(-1)\<close> answers 1 on the result exactly when the value at the top
  is nil, 0 otherwise.
\<close>

theorem lookup_without_index_handler:
  assumes "stack_of W = Table a # rest"
    and "luaT_gettmbyobj (m_luastate W) (Table a) ''__index'' = Nil"
  shows "(heap (m_luastate W) a (String key) = Nil \<longrightarrow>
            pushTableValue E (Some key) W = Inr (with_stack W (Nil # Table a # rest)))
       \<and> (heap (m_luastate W) a (Number (of_int (sint i))) = Nil \<longrightarrow>
            pushTableValue_int E i W = Inr (with_stack W (Nil # Table a # rest)))
       \<and> pushTableValue E (Some key) W
            = Inr (with_stack W (heap (m_luastate W) a (String key) # Table a # rest))
       \<and> pushTableValue_int E i W
            = Inr (with_stack W (heap (m_luastate W) a (Number (of_int (sint i))) # Table a # rest))
       \<and> isNil (- 1) (with_stack W (x # Table a # rest)) = (if x = Nil then 1 else 0)
       \<and> depth (with_stack W (x # Table a # rest)) = depth W + 1"
proof -
  have W: "W = with_stack W (Table a # rest)"
    using assms(1) with_stack_same [of W] by simp
  have d: "depth W = Suc (length rest)"
    using assms(1) by (simp add: depth_def lua_gettop_def stack_of_def)
  have s: "pushTableValue E (Some key) W =
          Inr (with_stack W (heap (m_luastate W) a (String key) # Table a # rest))"
    using pushTableValue_top [OF assms(2), of E key rest] W by simp
  have n: "pushTableValue_int E i W =
          Inr (with_stack W (heap (m_luastate W) a (Number (of_int (sint i))) # Table a # rest))"
    using pushTableValue_int_top [OF assms(2), of E i rest] W by simp
  have t: "isNil (- 1) (with_stack W (x # Table a # rest)) = (if x = Nil then 1 else 0)"
    by (cases x) (simp_all add: isNil_def lua_isnil_def lua_type_def)
  show ?thesis using s n t d by simp
qed

text \<open>A lookup of the keys \<open>k\<close> and 1 in a table just created.\<close>

theorem lookup_without_index_handler_witness:
  "stack_of (createTable W0) = [Table 0]
   \<and> luaT_gettmbyobj (m_luastate (createTable W0)) (Table 0) ''__index'' = Nil
   \<and> heap (m_luastate (createTable W0)) 0 (String ''k'') = Nil
   \<and> heap (m_luastate (createTable W0)) 0 (Number (of_int (sint (1 :: 32 word)))) = Nil
   \<and> pushTableValue E0 (Some ''k'') (createTable W0) = Inr (with_stack (createTable W0) [Nil, Table 0])
   \<and> pushTableValue_int E0 1 (createTable W0) = Inr (with_stack (createTable W0) [Nil, Table 0])
   \<and> isNil (- 1) (with_stack (createTable W0) [Nil, Table 0]) = 1
   \<and> isNil (- 1) (with_stack (createTable W0) [Number 5, Table 0]) = 0
   \<and> depth (with_stack (createTable W0) [Nil, Table 0]) = depth (createTable W0) + 1"
proof -
  have a: "next_table (m_luastate W0) = 0" by (simp add: W0_def L0_def)
  have s: "stack_of (createTable W0) = Table 0 # []"
    using createTable_facts(1) [of W0] a by simp
  have t: "luaT_gettmbyobj (m_luastate (createTable W0)) (Table 0) ''__index'' = Nil"
    using createTable_facts(3) [of W0] a by simp
  have h: "heap (m_luastate (createTable W0)) 0 k = Nil" for k
    using createTable_facts(2) [of W0] a by simp
  show ?thesis
    using lookup_without_index_handler [OF s t, where key = "''k''" and i = 1 and E = E0 and x = Nil]
      lookup_without_index_handler [OF s t, where key = "''k''" and i = 1 and E = E0 and x = "Number 5"]
      s t h by simp
qed

text \<open>
  C10, as stated, fails for a table with an \<open>__index\<close> handler: \<open>pushTableValue\<close> calls
  \<open>lua_gettable\<close>, not \<open>lua_rawget\<close>, so a miss runs the handler. Table 0 has no entry for
  \<open>k\<close> and its handler raises: the lookup of \<open>k\<close> fails with the error the handler threw.
\<close>

theorem lookup_miss_runs_index_handler:
  "stack_of W_mt = [Table 0]
   \<and> heap (m_luastate W_mt) 0 (String ''k'') = Nil
   \<and> pushTableValue E0 (Some ''k'') W_mt =
       Inl (Thrown (String ''error''), with_stack W_mt [String ''k'', Table 0])"
proof -
  let ?L1 = "L_mt\<lparr>stack := [String ''k'', Table 0]\<rparr>"
  have tm: "luaT_gettmbyobj ?L1 (Table 0) ''__index'' = Function 2"
    by (simp add: luaT_gettmbyobj_def L_mt_def)
  have raw: "rawget ?L1 (Table 0) (String ''k'') = Nil"
    by (simp add: rawget_def L_mt_def)
  have c: "call E0 (Function 2) [Table 0, String ''k''] ?L1 = (Inl (String ''error''), ?L1)"
    by (simp add: E0_def)
  have v: "luaV_gettable (Suc 99) E0 ?L1 (Table 0) (String ''k'')
      = Inl (Thrown (String ''error''), ?L1)"
    by (subst luaV_gettable.simps(2))
       (simp add: tm raw c ttistable_def ttisfunction_def del: luaT_gettmbyobj_stack)
  have g: "lua_gettable E0 ?L1 (- 2) = Inl (Thrown (String ''error''), ?L1)"
    using v by (simp add: lua_gettable_def MAXTAGLOOP_Suc)
  have p: "lua_pushstring (m_luastate W_mt) (Some ''k'') = ?L1"
    by (simp add: lua_pushstring_def push_def W_mt_def L_mt_def)
  have i: "lua_istable (m_luastate W_mt) (- 1)"
    by (simp add: lua_istable_def lua_type_def W_mt_def L_mt_def)
  show ?thesis
    by (simp add: pushTableValue_def i p g)
       (simp add: W_mt_def L_mt_def stack_of_def with_stack_def)
qed

subsection \<open>\<open>callFunction\<close>\<close>

lemma lua_tostring_length [simp]:
  "length (stack (snd (lua_tostring E L idx))) = length (stack L)"
  by (simp add: lua_tostring_def split: option.splits lua_value.splits)

lemma lua_tostring_top:
  "stack L = e # rest \<Longrightarrow>
   lua_tostring E L (- 1) =
     (case e of
        String s \<Rightarrow> (Some s, L)
      | Number x \<Rightarrow> (Some (number2str E x), L\<lparr>stack := String (number2str E x) # rest\<rparr>)
      | _ \<Rightarrow> (None, L))"
  by (simp add: lua_tostring_def split: lua_value.splits)

lemma lua_tostring_hd:
  "stack L = e # rest \<Longrightarrow> idx < - 1 \<Longrightarrow>
   \<exists>rest'. stack (snd (lua_tostring E L idx)) = e # rest' \<and> length rest' = length rest"
proof -
  assume s: "stack L = e # rest" and i: "idx < - 1"
  show ?thesis
  proof (cases "index2adr L idx")
    case None
    then show ?thesis using s by (simp add: lua_tostring_def)
  next
    case (Some p)
    then have "p \<noteq> 0"
      using i s by (auto simp add: index2adr_def Let_def split: if_splits)
    then obtain q where q: "p = Suc q" by (cases p) auto
    show ?thesis
      using Some s q by (simp add: lua_tostring_def split: lua_value.splits)
  qed
qed

lemma callee_function [simp]: "callee L (Function n) args = Some (Function n, args)"
  by (simp add: callee_def ttisfunction_def)

lemma lua_pcall_shape:
  assumes "stack L = rev args @ f # rest" "length args = nat nargs"
  shows "lua_pcall E L nargs nresults =
     (case callee L f args of
        Some (g, as) \<Rightarrow>
          (case call E g as (L\<lparr>stack := rest\<rparr>) of
             (Inl e, L') \<Rightarrow> (LUA_ERRRUN, L'\<lparr>stack := e # rest\<rparr>)
           | (Inr rs, L') \<Rightarrow> (0, L'\<lparr>stack := rev (adjust_results nresults rs) @ rest\<rparr>))
      | None \<Rightarrow> (LUA_ERRRUN,
           L\<lparr>stack := String (''attempt to call a '' @ luaT_typename (ttype f) @ '' value'') # rest\<rparr>))"
  using assms by (simp add: lua_pcall_def Let_def)



lemma index2adr_length:
  "length (stack L') = length (stack L) \<Longrightarrow> index2adr L' idx = index2adr L idx"
  by (simp add: index2adr_def)

lemma index2adr_bound: "index2adr L idx = Some p \<Longrightarrow> p < length (stack L)"
  by (auto simp add: index2adr_def Let_def split: if_splits)

lemma lua_tostring_none: "index2adr L i = None \<Longrightarrow> lua_tostring E L i = (None, L)"
  by (simp add: lua_tostring_def)

lemma lua_tostring_none_after:
  assumes "index2adr L i = None"
  shows "lua_tostring E (snd (lua_tostring E L j)) i = (None, snd (lua_tostring E L j))"
proof -
  have "index2adr (snd (lua_tostring E L j)) i = index2adr L i"
    by (rule index2adr_length) simp
  then show ?thesis using assms by (simp add: lua_tostring_none)
qed

lemma lua_tostring_some:
  "index2adr L i = Some p \<Longrightarrow>
   lua_tostring E L i =
     (case stack L ! p of
        String s \<Rightarrow> (Some s, L)
      | Number x \<Rightarrow> (Some (number2str E x), L\<lparr>stack := (stack L)[p := String (number2str E x)]\<rparr>)
      | _ \<Rightarrow> (None, L))"
  by (simp add: lua_tostring_def)

text \<open>
  The two \<open>lua_tostring\<close> calls in the \<open>printf\<close> of \<open>callFunction\<close> may run in either
  order: the strings they return and the stack they leave are the same.
\<close>

lemma lua_tostring_order:
  "(case lua_tostring E L i of (a, L1) \<Rightarrow> case lua_tostring E L1 j of (b, L2) \<Rightarrow> (a, b, L2))
   = (case lua_tostring E L j of (b, L1) \<Rightarrow> case lua_tostring E L1 i of (a, L2) \<Rightarrow> (a, b, L2))"
proof (cases "index2adr L i")
  case None
  show ?thesis
    using lua_tostring_none [OF None, of E] lua_tostring_none_after [OF None, of E j]
    by (simp add: case_prod_beta)
next
  case pi: (Some p)
  show ?thesis
  proof (cases "index2adr L j")
    case None
    show ?thesis
      using lua_tostring_none [OF None, of E] lua_tostring_none_after [OF None, of E i]
      by (simp add: case_prod_beta)
  next
    case pj: (Some q)
    have b: "p < length (stack L)" "q < length (stack L)"
      using pi pj index2adr_bound by blast+
    have u: "index2adr (L\<lparr>stack := (stack L)[r := v]\<rparr>) k = index2adr L k" for r v k
      by (rule index2adr_length) simp
    show ?thesis
    proof (cases "p = q")
      case True
      then show ?thesis
        using pi pj b
        by (cases "stack L ! q") (simp_all add: lua_tostring_some u)
    next
      case False
      then show ?thesis
        using pi pj b
        by (cases "stack L ! p"; cases "stack L ! q")
           (simp_all add: lua_tostring_some u list_update_swap)
    qed
  qed
qed



lemma tostring_conv_idem [simp]:
  "tostring_conv E (tostring_conv E v) = tostring_conv E v"
  "tostring_text E (tostring_conv E v) = tostring_text E v"
  by (cases v; simp add: tostring_conv_def tostring_text_def)+




lemma failure_rest_length [simp]: "length (failure_rest E nargs rest) = length rest"
  by (simp add: failure_rest_def)






lemma E0_call:
  "call E0 (Function 0) args L = (Inr args, L)"
  "call E0 (Function 1) args L = (Inl (Table 0), L)"
  "call E0 (Function 2) args L = (Inl (String ''error''), L)"
  by (simp_all add: E0_def)




subsection \<open>\<open>doFile\<close>\<close>

lemma luaL_dofile_load_error:
  "loadfile E fn = Inl msg \<Longrightarrow> luaL_dofile E L fn = (1, push (String msg) L)"
  by (simp add: luaL_dofile_def luaL_loadfile_def LUA_ERRFILE_def)

lemma luaL_dofile_run:
  assumes "loadfile E fn = Inr f"
  shows "luaL_dofile E L fn =
     (case call E (Function f) [] L of
        (Inl e, L') \<Rightarrow> (1, L'\<lparr>stack := e # stack L\<rparr>)
      | (Inr rs, L') \<Rightarrow> (0, L'\<lparr>stack := rev rs @ stack L\<rparr>))"
proof -
  have "lua_pcall E (push (Function f) L) 0 LUA_MULTRET =
     (case call E (Function f) [] ((push (Function f) L)\<lparr>stack := stack L\<rparr>) of
        (Inl e, L') \<Rightarrow> (LUA_ERRRUN, L'\<lparr>stack := e # stack L\<rparr>)
      | (Inr rs, L') \<Rightarrow> (0, L'\<lparr>stack := rev (adjust_results LUA_MULTRET rs) @ stack L\<rparr>))"
    using lua_pcall_shape [of "push (Function f) L" "[]" "Function f" "stack L" 0 E LUA_MULTRET]
    by (simp add: push_def)
  moreover have "(push (Function f) L)\<lparr>stack := stack L\<rparr> = L"
    by (simp add: push_def)
  ultimately show ?thesis
    using assms
    by (simp add: luaL_dofile_def luaL_loadfile_def LUA_ERRRUN_def LUA_MULTRET_def
        adjust_results_def split: prod.splits sum.splits)
qed

text \<open>
  C5, as the code has it. \<open>doFile\<close> returns 0 or 1. When the file cannot be loaded, or its
  chunk raises an error value that is a string or a number, it returns 1, prints one
  diagnostic whose arguments are the path and the text of the error value, and leaves that
  text, as a string, at the top of the stack as it was before the call. When the chunk runs
  to its end it returns 0, prints nothing and leaves the chunk's results on the stack. A
  chunk that raises any other error value makes it return 1 as well; nothing is said here
  about the diagnostic in that case.
\<close>

theorem doFile_status_and_diagnostic:
  "(fst (doFile E fn W) = 0 \<or> fst (doFile E fn W) = 1)
   \<and> (\<forall>msg. loadfile E fn = Inl msg \<longrightarrow>
        doFile E fn W =
          (1, W\<lparr>m_luastate := (m_luastate W)\<lparr>stack := String msg # stack_of W\<rparr>,
                 console := (''Error running LuaWrapper::dofile doing file: %s\<newline>error: %s\<newline>'',
                             [Some fn, Some msg]) # console W\<rparr>))
   \<and> (\<forall>f e L'. loadfile E fn = Inr f \<and> call E (Function f) [] (m_luastate W) = (Inl e, L') \<longrightarrow>
        fst (doFile E fn W) = 1
        \<and> (\<forall>m. e = String m \<longrightarrow>
             doFile E fn W =
               (1, W\<lparr>m_luastate := L'\<lparr>stack := String m # stack_of W\<rparr>,
                      console := (''Error running LuaWrapper::dofile doing file: %s\<newline>error: %s\<newline>'',
                                  [Some fn, Some m]) # console W\<rparr>))
        \<and> (\<forall>x. e = Number x \<longrightarrow>
             doFile E fn W =
               (1, W\<lparr>m_luastate := L'\<lparr>stack := String (number2str E x) # stack_of W\<rparr>,
                      console := (''Error running LuaWrapper::dofile doing file: %s\<newline>error: %s\<newline>'',
                                  [Some fn, Some (number2str E x)]) # console W\<rparr>)))
   \<and> (\<forall>f rs L'. loadfile E fn = Inr f \<and> call E (Function f) [] (m_luastate W) = (Inr rs, L') \<longrightarrow>
        doFile E fn W = (0, W\<lparr>m_luastate := L'\<lparr>stack := rev rs @ stack_of W\<rparr>\<rparr>))"
proof (intro conjI allI impI)
  show "fst (doFile E fn W) = 0 \<or> fst (doFile E fn W) = 1"
    by (auto simp add: doFile_def luaL_dofile_def split: prod.splits)
next
  fix msg assume "loadfile E fn = Inl msg"
  then show "doFile E fn W =
          (1, W\<lparr>m_luastate := (m_luastate W)\<lparr>stack := String msg # stack_of W\<rparr>,
                 console := (''Error running LuaWrapper::dofile doing file: %s\<newline>error: %s\<newline>'',
                             [Some fn, Some msg]) # console W\<rparr>)"
    by (simp add: doFile_def luaL_dofile_load_error push_def lua_tostring_top stack_of_def)
next
  fix f e L'
  assume a: "loadfile E fn = Inr f \<and> call E (Function f) [] (m_luastate W) = (Inl e, L')"
  then have d: "luaL_dofile E (m_luastate W) fn = (1, L'\<lparr>stack := e # stack_of W\<rparr>)"
    using luaL_dofile_run [of E fn f "m_luastate W"] by (simp add: stack_of_def)
  show "fst (doFile E fn W) = 1"
    using d by (simp add: doFile_def split: prod.splits)
  show "doFile E fn W =
               (1, W\<lparr>m_luastate := L'\<lparr>stack := String m # stack_of W\<rparr>,
                      console := (''Error running LuaWrapper::dofile doing file: %s\<newline>error: %s\<newline>'',
                                  [Some fn, Some m]) # console W\<rparr>)"
    if "e = String m" for m
    using d that by (simp add: doFile_def lua_tostring_top)
  show "doFile E fn W =
               (1, W\<lparr>m_luastate := L'\<lparr>stack := String (number2str E x) # stack_of W\<rparr>,
                      console := (''Error running LuaWrapper::dofile doing file: %s\<newline>error: %s\<newline>'',
                                  [Some fn, Some (number2str E x)]) # console W\<rparr>)"
    if "e = Number x" for x
    using d that by (simp add: doFile_def lua_tostring_top)
next
  fix f rs L'
  assume "loadfile E fn = Inr f \<and> call E (Function f) [] (m_luastate W) = (Inr rs, L')"
  then show "doFile E fn W = (0, W\<lparr>m_luastate := L'\<lparr>stack := rev rs @ stack_of W\<rparr>\<rparr>)"
    using luaL_dofile_run [of E fn f "m_luastate W"] by (simp add: doFile_def stack_of_def)
qed

lemma E0_loadfile:
  "loadfile E0 ''echo.lua'' = Inr 0"
  "loadfile E0 ''raise.lua'' = Inr 1"
  "loadfile E0 ''fail.lua'' = Inr 2"
  "loadfile E0 ''missing.script'' = Inl ''cannot open missing.script: No such file or directory''"
  by (simp_all add: E0_def)

text \<open>A missing file, a chunk that raises a message and a chunk that returns.\<close>

theorem doFile_status_and_diagnostic_witness:
  "loadfile E0 ''missing.script'' = Inl ''cannot open missing.script: No such file or directory''
   \<and> doFile E0 ''missing.script'' W0 =
       (1, W0\<lparr>m_luastate := L0\<lparr>stack := [String ''cannot open missing.script: No such file or directory'']\<rparr>,
               console := [(''Error running LuaWrapper::dofile doing file: %s\<newline>error: %s\<newline>'',
                            [Some ''missing.script'',
                             Some ''cannot open missing.script: No such file or directory''])]\<rparr>)
   \<and> loadfile E0 ''fail.lua'' = Inr 2
   \<and> call E0 (Function 2) [] L0 = (Inl (String ''error''), L0)
   \<and> doFile E0 ''fail.lua'' W0 =
       (1, W0\<lparr>m_luastate := L0\<lparr>stack := [String ''error'']\<rparr>,
               console := [(''Error running LuaWrapper::dofile doing file: %s\<newline>error: %s\<newline>'',
                            [Some ''fail.lua'', Some ''error''])]\<rparr>)
   \<and> loadfile E0 ''echo.lua'' = Inr 0
   \<and> call E0 (Function 0) [] L0 = (Inr [], L0)
   \<and> doFile E0 ''echo.lua'' W0 = (0, W0)"
proof -
  have m: "m_luastate W0 = L0" "console W0 = []" by (simp_all add: W0_def)
  have z: "W0\<lparr>m_luastate := L0\<lparr>stack := []\<rparr>\<rparr> = W0" by (simp add: W0_def L0_def)
  show ?thesis
    using doFile_status_and_diagnostic [of E0 "''missing.script''" W0]
      doFile_status_and_diagnostic [of E0 "''fail.lua''" W0]
      doFile_status_and_diagnostic [of E0 "''echo.lua''" W0]
    by (simp add: E0_loadfile E0_call m z)
qed

text \<open>
  C5, as stated, fails when the error value is not text: the chunk of \<open>raise.lua\<close> raises
  a table, \<open>lua_tostring\<close> gives \<open>NULL\<close> for it, so the diagnostic is printed with the path
  and a \<open>NULL\<close> in place of an error text, and the top of the stack is the table, not a
  message.
\<close>

theorem doFile_table_error_has_no_text:
  "doFile E0 ''raise.lua'' W0 =
     (1, W0\<lparr>m_luastate := L0\<lparr>stack := [Table 0]\<rparr>,
             console := [(''Error running LuaWrapper::dofile doing file: %s\<newline>error: %s\<newline>'',
                          [Some ''raise.lua'', None])]\<rparr>)"
proof -
  have c: "call E0 (Function 1) [] L0 = (Inl (Table 0), L0)"
    by (simp add: E0_def)
  have d: "luaL_dofile E0 L0 ''raise.lua'' = (1, L0\<lparr>stack := [Table 0]\<rparr>)"
    using luaL_dofile_run [OF E0_loadfile(2), of L0] c by (simp add: L0_def)
  have t: "lua_tostring E0 (L0\<lparr>stack := [Table 0]\<rparr>) (- 1) = (None, L0\<lparr>stack := [Table 0]\<rparr>)"
    by (simp add: lua_tostring_top)
  show ?thesis
    by (simp add: doFile_def W0_def d t)
qed


subsection \<open>References: \<open>pop2Ref\<close> and \<open>pushRef\<close>\<close>


lemma pushRef_eq:
  "pushRef k W =
     W\<lparr>m_luastate := luaL_unref ((m_luastate W)\<lparr>stack := registry (m_luastate W) k # stack_of W\<rparr>) k\<rparr>"
  by (simp add: pushRef_def lua_rawgeti_registry_def push_def stack_of_def)

lemma pushRef_stack: "stack_of (pushRef k W) = registry (m_luastate W) k # stack_of W"
  by (simp add: pushRef_eq luaL_unref_def stack_of_def)

lemma pushRef_registry:
  "registry (m_luastate (pushRef k W)) =
     (if 0 \<le> k then (registry (m_luastate W))(k := registry (m_luastate W) FREELIST_REF,
                                                  FREELIST_REF := Number (of_int k))
      else registry (m_luastate W))"
  by (simp add: pushRef_eq luaL_unref_def)





lemma registry_with_stack [simp]:
  "registry (m_luastate (with_stack W vs)) = registry (m_luastate W)"
  by (simp add: with_stack_def)






text \<open>
  The link a second reattach pushes can be the value itself: with the free list 2, then 1,
  the number 1 is detached under the key 2 and the slot's link after the reattach is the
  number 1.
\<close>

lemma second_reattach_reproduces_number:
  "pop2Ref E0 (pushNumber 1 W_refs)
     = (2, W_refs\<lparr>m_luastate := L_refs\<lparr>registry :=
            (\<lambda>_. Nil)(0 := Number 1, 2 := Number 1, 3 := String ''kept'')\<rparr>\<rparr>)
   \<and> stack_of (pushRef 2 (snd (pop2Ref E0 (pushNumber 1 W_refs)))) = [Number 1]
   \<and> stack_of (pushRef 2 (pushRef 2 (snd (pop2Ref E0 (pushNumber 1 W_refs)))))
       = [Number 1, Number 1]"
proof -
  have t: "value_tointeger E0 (Number 2) = 2"
    by (simp add: value_tointeger_def tonumber_def number_to_integer_def)
  have p: "pop2Ref E0 (pushNumber 1 W_refs)
     = (2, W_refs\<lparr>m_luastate := L_refs\<lparr>registry :=
            (\<lambda>_. Nil)(0 := Number 1, 2 := Number 1, 3 := String ''kept'')\<rparr>\<rparr>)"
    by (simp add: pop2Ref_def luaL_ref_def pushNumber_def lua_pushnumber_def push_def
        W_refs_def L_refs_def FREELIST_REF_def t fun_upd_twist)
  show ?thesis
    by (simp add: p pushRef_stack pushRef_registry FREELIST_REF_def)
       (simp add: stack_of_def W_refs_def L_refs_def)
qed

subsection \<open>\<open>LuaWrapperOpenFile\<close> and \<open>LuaWrapperCloseFile\<close>\<close>

lemma callee_stack [simp]: "callee (L\<lparr>stack := vs\<rparr>) f args = callee L f args"
  by (simp add: callee_def)

lemma callFunction_m_status [simp]:
  "m_status (snd (callFunction E nargs nresults W)) = m_status W"
  by (simp add: callFunction_def split: prod.splits)

lemma io_open_m_status: "m_status (final (io_open E fname s W)) = m_status W"
  by (simp add: io_open_def Let_def popUserdata_def final_def getGlobal_def pushString_def)

text \<open>
  The mode string sets the status tag whether the open then returns or raises; any other
  mode string returns \<open>NULL\<close> and changes nothing. The close does not look at its handle.
\<close>

lemma openfile_records_mode:
  "s \<in> {''w'', ''wb'', ''w+'', ''a'', ''ab'', ''a+''} \<Longrightarrow>
     m_status (final (LuaWrapperOpenFile E fname s W)) = Some ''_OUTPUT''"
  "s \<in> {''r'', ''rb'', ''r+''} \<Longrightarrow>
     m_status (final (LuaWrapperOpenFile E fname s W)) = Some ''_INPUT''"
  "s \<notin> {''w'', ''wb'', ''w+'', ''a'', ''ab'', ''a+'', ''r'', ''rb'', ''r+''} \<Longrightarrow>
     LuaWrapperOpenFile E fname s W = Inr (0, W)"
  by (auto simp add: LuaWrapperOpenFile_def io_open_m_status)

lemma closefile_ignores_handle:
  "LuaWrapperCloseFile fp E W = LuaWrapperCloseFile fp' E W"
  by (simp add: LuaWrapperCloseFile_def)

text \<open>
  \<open>lua_getglobal\<close> takes the whole string \<open>io.close\<close> as the name of one global. Unless
  the global of that very name can be called, the close calls nothing: \<open>lua_pcall\<close> fails
  on the value found, whatever the engine's functions do.
\<close>

lemma closefile_without_global:
  assumes "callee (m_luastate W) (globals (m_luastate W) ''io.close'') [] = None"
  shows "LuaWrapperCloseFile fp E W =
     W\<lparr>m_luastate := (m_luastate W)\<lparr>stack :=
          String (''attempt to call a ''
                  @ luaT_typename (ttype (globals (m_luastate W) ''io.close'')) @ '' value'')
          # stack_of W\<rparr>,
        console := (''Error running function %s: %s'',
          [Some (''attempt to call a ''
                 @ luaT_typename (ttype (globals (m_luastate W) ''io.close'')) @ '' value''),
           Some (''attempt to call a ''
                 @ luaT_typename (ttype (globals (m_luastate W) ''io.close'')) @ '' value'')])
          # console W\<rparr>"
proof -
  let ?g = "globals (m_luastate W) ''io.close''"
  let ?m = "''attempt to call a '' @ luaT_typename (ttype ?g) @ '' value''"
  have p: "lua_pcall E (m_luastate (getGlobal ''io.close'' W)) 0 0 =
      (LUA_ERRRUN, (m_luastate W)\<lparr>stack := String ?m # stack_of W\<rparr>)"
    using lua_pcall_shape [of "m_luastate (getGlobal ''io.close'' W)" "[]" ?g "stack_of W" 0 E 0]
      assms
    by (simp add: getGlobal_def lua_getglobal_def push_def stack_of_def)
  have u: "getGlobal ''io.close'' W\<lparr>m_luastate := X, console := Y\<rparr> = W\<lparr>m_luastate := X, console := Y\<rparr>"
    "console (getGlobal ''io.close'' W) = console W" for X Y
    by (simp_all add: getGlobal_def)
  show ?thesis
    by (simp add: LuaWrapperCloseFile_def callFunction_def p LUA_ERRRUN_def lua_tostring_top u)
qed

text \<open>
  C9. The close is to invoke the engine's close entry point. In a state with the \<open>io\<close>
  library, where \<open>close\<close> is a field of the table \<open>io\<close> and no global is named \<open>io.close\<close>,
  \<open>LuaWrapperCloseFile\<close> looks up nil, fails to call it, prints the error and leaves the
  message on the stack; function 4, the engine's \<open>close\<close>, is not run.
\<close>

theorem closefile_never_reaches_io_close:
  "globals L_io ''io'' = Table 0
   \<and> heap L_io 0 (String ''close'') = Function 4
   \<and> globals L_io ''io.close'' = Nil
   \<and> LuaWrapperCloseFile 0 E0 W_io =
       W_io\<lparr>m_luastate := L_io\<lparr>stack := [String ''attempt to call a nil value'']\<rparr>,
            console := [(''Error running function %s: %s'',
                         [Some ''attempt to call a nil value'',
                          Some ''attempt to call a nil value''])]\<rparr>"
proof -
  have g: "globals (m_luastate W_io) ''io.close'' = Nil"
    by (simp add: W_io_def L_io_def)
  have "callee (m_luastate W_io) (globals (m_luastate W_io) ''io.close'') [] = None"
    by (simp add: g callee_def luaT_gettmbyobj_def ttisfunction_def W_io_def L_io_def)
  then show ?thesis
    using closefile_without_global [of W_io 0 E0]
    by (simp add: g) (simp add: W_io_def L_io_def stack_of_def)
qed

text \<open>The open has the same defect: it records the mode, fails to call nil and then raises
  on the error message, which is not userdata.\<close>

lemma openfile_never_reaches_io_open:
  "LuaWrapperOpenFile E0 (Some ''out.txt'') ''w'' W_io =
     Inl (LuaError ''ERROR: C-Lua stack value type mismatch (should be userdata)!'',
          W_io\<lparr>m_luastate := L_io\<lparr>stack := [String ''attempt to call a nil value'']\<rparr>,
               m_status := Some ''_OUTPUT'',
               console := [(''Error running function %s: %s'',
                            [None, Some ''attempt to call a nil value''])]\<rparr>)"
proof -
  let ?W3 = "pushString (Some ''w'') (pushString (Some ''out.txt'')
               (getGlobal ''io.open'' (W_io\<lparr>m_status := Some ''_OUTPUT''\<rparr>)))"
  have s: "stack (m_luastate ?W3) = rev [String ''out.txt'', String ''w''] @ Nil # []"
    by (simp add: pushString_def lua_pushstring_def getGlobal_def lua_getglobal_def push_def
        W_io_def L_io_def)
  have p: "lua_pcall E0 (m_luastate ?W3) 2 1 =
      (LUA_ERRRUN, (m_luastate ?W3)\<lparr>stack := [String ''attempt to call a nil value'']\<rparr>)"
    using lua_pcall_shape [OF s, of 2 E0 1]
    by (simp add: callee_def luaT_gettmbyobj_def ttisfunction_def pushString_def
        lua_pushstring_def getGlobal_def lua_getglobal_def push_def W_io_def L_io_def)
  have t: "lua_tostring E0 ((m_luastate ?W3)\<lparr>stack := [String ''attempt to call a nil value'']\<rparr>) (- 3)
      = (None, (m_luastate ?W3)\<lparr>stack := [String ''attempt to call a nil value'']\<rparr>)"
    by (simp add: lua_tostring_def index2adr_def)
  have c: "callFunction E0 2 1 ?W3 =
      (0, ?W3\<lparr>m_luastate := (m_luastate ?W3)\<lparr>stack := [String ''attempt to call a nil value'']\<rparr>,
               console := [(''Error running function %s: %s'',
                            [None, Some ''attempt to call a nil value''])]\<rparr>)"
    by (simp add: callFunction_def p LUA_ERRRUN_def t lua_tostring_top)
       (simp add: pushString_def getGlobal_def W_io_def)
  show ?thesis
    by (simp add: LuaWrapperOpenFile_def io_open_def Let_def c popUserdata_def lua_isuserdata_def
        lua_type_def)
       (simp add: pushString_def lua_pushstring_def getGlobal_def lua_getglobal_def push_def
        W_io_def L_io_def)
qed

end
